theory Spec2Isabelle
  imports
    Complex_Main
    "HOL-Library.Char_ord"
    "HOL-Library.List_Lexorder"
    "HOL-Library.Product_Lexorder"
    "HOL-Library.Multiset"
begin

section \<open>The invoice table\<close>

text \<open>
  The program (\<^verbatim>\<open>faturas_fake_generator/generator.py\<close>) builds one pandas table with a
  row per invoice and extends it column by column.  A table is modelled as the list of its
  rows in positional order.  The index labels of the table are unique (they come from the
  \<^verbatim>\<open>DataFrame\<close> constructor and from \<^verbatim>\<open>merge\<close>), so a label identifies one row and
  label-based access (\<^verbatim>\<open>df.at[i, col]\<close>, \<^verbatim>\<open>df.loc[labels, col]\<close>) is access to that row.

  The columns whose names are fixed in the source are record fields; every stage that adds
  such a column extends the record, as the stage extends the table, and leaves the further
  columns of the table (the extension part of the record) as they are.  A column whose name
  is a parameter of a stage (\<^verbatim>\<open>coluna_valor\<close>, \<^verbatim>\<open>coluna_status\<close>, ...) is modelled by
  the selector that reads it, and a stage that writes a column named by a parameter
  returns the table paired row by row with the new column.

  The table of the customers (\<^verbatim>\<open>df_clientes\<close>) has rows of type \<open>pessoa\<close>; its column
  \<^verbatim>\<open>cliente\<close> is written \<open>pessoa.cliente\<close> below, and \<open>cliente\<close> is the column of the
  invoice table.

  Floating-point numbers are idealised: a finite float is a real number (no rounding and
  no overflow), and the special values of IEEE arithmetic are kept apart.
\<close>

datatype error = ValueError

record pessoa =
  cliente :: string
  age :: int
  location :: string

record fatura =
  cliente :: string
  vl_fatura :: real
  numero_fatura :: int

record fatura_paga = fatura +
  status_pago :: bool

record fatura_vencimento = fatura_paga +
  pago_antes_vencimento :: bool

record fatura_dias = fatura_vencimento +
  dias_pagamento :: int

datatype pyfloat = Fin real | PInf | NInf | NaN


section \<open>The random source\<close>

text \<open>
  The program draws from the process-wide generators of \<^verbatim>\<open>numpy.random\<close> and
  \<^verbatim>\<open>random\<close>.  The raw draws are a parameter of the model: a record of streams, one per
  call site.  Each library sampler maps raw draws into its range, and raises where the
  library raises.
\<close>

record rng =
  rand_counts :: "nat \<Rightarrow> nat"
  rand_medias :: "nat \<Rightarrow> real"
  rand_desvios :: "nat \<Rightarrow> real"
  rand_normal :: "nat \<Rightarrow> nat \<Rightarrow> real"


text \<open>
  \<^verbatim>\<open>np.random.randint(low, high, size=n)\<close>: \<open>n\<close> integers of the half-open range
  \<open>[low, high)\<close>; \<^verbatim>\<open>ValueError\<close> (low >= high) on an empty range.  An array of size
  zero is returned before the bounds are looked at.
\<close>

definition np_randint :: "int \<Rightarrow> int \<Rightarrow> nat \<Rightarrow> (nat \<Rightarrow> nat) \<Rightarrow> error + int list" where
  "np_randint low high n u =
     (if n = 0 then Inr []
      else if low \<ge> high then Inl ValueError
      else Inr (map (\<lambda>i. low + int (u i mod nat (high - low))) [0..<n]))"

text \<open>
  \<^verbatim>\<open>np.random.uniform(low, high, size=n)\<close>: \<open>low + (high - low) * u\<close> for raw draws
  \<open>u\<close> of \<open>[0, 1)\<close>; the bounds are not compared.
\<close>

definition np_uniform :: "real \<Rightarrow> real \<Rightarrow> nat \<Rightarrow> (nat \<Rightarrow> real) \<Rightarrow> real list" where
  "np_uniform low high n u = map (\<lambda>i. low + (high - low) * u i) [0..<n]"

text \<open>
  \<^verbatim>\<open>np.random.normal(loc, scale, n)\<close>: \<open>loc + scale * z\<close> for raw standard normal draws
  \<open>z\<close>; \<^verbatim>\<open>ValueError\<close> on a negative scale and on a negative size.
\<close>

definition np_normal :: "real \<Rightarrow> real \<Rightarrow> int \<Rightarrow> (nat \<Rightarrow> real) \<Rightarrow> error + real list" where
  "np_normal loc scale n z =
     (if scale < 0 \<or> n < 0 then Inl ValueError
      else Inr (map (\<lambda>j. loc + scale * z j) [0..<nat n]))"


section \<open>Invoice Sequence Generator: \<^verbatim>\<open>gerar_faturas\<close>\<close>

text \<open>
  \<^verbatim>\<open>groupby('cliente').cumcount()\<close>: every row gets the number of earlier rows of its
  own group.
\<close>

fun cumcount_from :: "'k list \<Rightarrow> 'k list \<Rightarrow> nat list" where
  "cumcount_from seen [] = []"
| "cumcount_from seen (k # ks) = count_list seen k # cumcount_from (seen @ [k]) ks"

definition cumcount :: "'k list \<Rightarrow> nat list" where
  "cumcount ks = cumcount_from [] ks"

text \<open>
  The loop over \<^verbatim>\<open>enumerate(clientes)\<close>.  The list \<^verbatim>\<open>dados_faturas\<close>, to which the loop
  appends the invoices, is its state.  A draw that raises ends the loop: the result is
  then the error together with the invoices generated until the error is raised.
\<close>

type_synonym falha = "error \<times> (string \<times> real) list"

fun dados_faturas ::
  "rng \<Rightarrow> string list \<Rightarrow> real list \<Rightarrow> real list \<Rightarrow> int list \<Rightarrow> nat list
     \<Rightarrow> (string \<times> real) list \<Rightarrow> falha + (string \<times> real) list" where
  "dados_faturas g clientes medias desvios nums [] dados = Inr dados"
| "dados_faturas g clientes medias desvios nums (i # is) dados =
     (case np_normal (medias ! i) (desvios ! i) (nums ! i) (rand_normal g i) of
        Inl e \<Rightarrow> Inl (e, dados)
      | Inr valores_faturas \<Rightarrow>
          dados_faturas g clientes medias desvios nums is
            (dados @ map (\<lambda>valor. (clientes ! i, valor)) valores_faturas))"

text \<open>
  \<^verbatim>\<open>gerar_faturas\<close> starts with an empty list of invoices and draws the invoice counts
  first; the table is built when the loop has ended.
\<close>

definition gerar_faturas ::
  "string list \<Rightarrow> int \<Rightarrow> int \<Rightarrow> real \<Rightarrow> real \<Rightarrow> real \<Rightarrow> real \<Rightarrow> rng \<Rightarrow> falha + fatura list" where
  "gerar_faturas clientes n_faturas_min n_faturas_max valor_minimo valor_maximo sd_min sd_max g =
     (case np_randint n_faturas_min (n_faturas_max + 1) (length clientes) (rand_counts g) of
        Inl e \<Rightarrow> Inl (e, [])
      | Inr num_faturas_por_cliente \<Rightarrow>
          (let medias_faturas = np_uniform valor_minimo valor_maximo (length clientes) (rand_medias g);
               desvios_padrao = np_uniform sd_min sd_max (length clientes) (rand_desvios g)
           in case dados_faturas g clientes medias_faturas desvios_padrao
                     num_faturas_por_cliente [0..<length clientes] [] of
                Inl f \<Rightarrow> Inl f
              | Inr dados \<Rightarrow>
                  Inr (map (\<lambda>((c, v), n). \<lparr>cliente = c, vl_fatura = v, numero_fatura = int n + 1\<rparr>)
                         (zip dados (cumcount (map fst dados))))))"


section \<open>Library operations on tables and columns\<close>

text \<open>\<^verbatim>\<open>Series.unique()\<close>: the distinct values in order of first appearance.\<close>

definition unique :: "'a list \<Rightarrow> 'a list" where
  "unique xs = rev (remdups (rev xs))"

text \<open>
  \<^verbatim>\<open>df.sort_values(by=['cliente', 'numero_fatura'])\<close>: the rows ordered by customer, then by
  sequence number; rows with equal keys keep their order.
\<close>

definition sort_values :: "'a fatura_scheme list \<Rightarrow> 'a fatura_scheme list" where
  "sort_values df = sort_key (\<lambda>r. (cliente r, numero_fatura r)) df"

text \<open>\<^verbatim>\<open>df[df['cliente'] == cliente].index\<close>: the labels of the rows of one customer.\<close>

definition cliente_indices :: "'a fatura_scheme list \<Rightarrow> string \<Rightarrow> nat list" where
  "cliente_indices df c = filter (\<lambda>i. cliente (df ! i) = c) [0..<length df]"

text \<open>\<^verbatim>\<open>Series.tail(n)\<close>: the last \<open>n\<close> entries.\<close>

definition tail_pd :: "nat \<Rightarrow> 'a list \<Rightarrow> 'a list" where
  "tail_pd n xs = drop (length xs - n) xs"

text \<open>
  \<^verbatim>\<open>Series.mean()\<close> and \<^verbatim>\<open>Series.std()\<close> (the sample standard deviation, one degree of
  freedom removed) of a column of finite numbers: \<^verbatim>\<open>NaN\<close> on too few entries.
\<close>

definition mean_pd :: "real list \<Rightarrow> pyfloat" where
  "mean_pd xs = (if xs = [] then NaN else Fin (sum_list xs / real (length xs)))"

definition std_pd :: "real list \<Rightarrow> pyfloat" where
  "std_pd xs =
     (if length xs < 2 then NaN
      else let m = sum_list xs / real (length xs)
           in Fin (sqrt (sum_list (map (\<lambda>x. (x - m)\<^sup>2) xs) / real (length xs - 1))))"

text \<open>IEEE subtraction and division on the idealised floats (zero has no sign).\<close>

fun fsub :: "pyfloat \<Rightarrow> pyfloat \<Rightarrow> pyfloat" where
  "fsub (Fin a) (Fin b) = Fin (a - b)"
| "fsub NaN y = NaN"
| "fsub x NaN = NaN"
| "fsub PInf PInf = NaN"
| "fsub NInf NInf = NaN"
| "fsub PInf y = PInf"
| "fsub NInf y = NInf"
| "fsub (Fin a) PInf = NInf"
| "fsub (Fin a) NInf = PInf"

fun fdiv :: "pyfloat \<Rightarrow> pyfloat \<Rightarrow> pyfloat" where
  "fdiv (Fin a) (Fin b) =
     (if b = 0 then (if a = 0 then NaN else if 0 < a then PInf else NInf) else Fin (a / b))"
| "fdiv NaN y = NaN"
| "fdiv x NaN = NaN"
| "fdiv (Fin a) y = Fin 0"
| "fdiv PInf (Fin b) = (if b < 0 then NInf else PInf)"
| "fdiv NInf (Fin b) = (if b < 0 then PInf else NInf)"
| "fdiv x y = NaN"

text \<open>
  \<^verbatim>\<open>range(a, b)\<close>, \<^verbatim>\<open>random.choice(seq)\<close> on a sequence that is not empty, and
  \<^verbatim>\<open>random.randint(a, b)\<close>, which raises \<^verbatim>\<open>ValueError\<close> on an empty range.  The two
  calls of \<^verbatim>\<open>random.choice\<close> in the program pass \<^verbatim>\<open>range(m - 1, m)\<close>, of one element,
  and the literal \<^verbatim>\<open>[True, False]\<close>; neither is ever empty.
\<close>

definition range_py :: "int \<Rightarrow> int \<Rightarrow> int list" where
  "range_py a b = [a..b - 1]"

definition random_choice :: "'a list \<Rightarrow> nat \<Rightarrow> 'a" where
  "random_choice xs u = xs ! (u mod length xs)"

definition random_randint :: "int \<Rightarrow> int \<Rightarrow> nat \<Rightarrow> error + int" where
  "random_randint a b u = (if b < a then Inl ValueError else Inr (a + int (u mod nat (b - a + 1))))"


section \<open>Payment Status Assignor: \<^verbatim>\<open>marcar_faturas_pagas\<close>\<close>

text \<open>
  \<^verbatim>\<open>df.groupby('cliente')['numero_fatura'].idxmax()\<close> for one group: the label of the first
  row of the group that carries the largest sequence number of the group.  The groups are
  the customers that occur in the table, so a group has a row and its maximum is attained.
\<close>

definition idxmax_numero_fatura :: "'a fatura_scheme list \<Rightarrow> string \<Rightarrow> nat" where
  "idxmax_numero_fatura df c =
     (let idxs = cliente_indices df c;
          m = Max (set (map (\<lambda>i. numero_fatura (df ! i)) idxs))
      in hd (filter (\<lambda>i. numero_fatura (df ! i) = m) idxs))"

text \<open>
  The loop over \<^verbatim>\<open>df['cliente'].unique()\<close>; \<open>j\<close> counts the customers already visited
  and selects the raw draw of this customer's \<^verbatim>\<open>random.choice\<close>.
\<close>

fun marcar_loop ::
  "(nat \<Rightarrow> nat) \<Rightarrow> nat \<Rightarrow> string list \<Rightarrow> 'a fatura_paga_scheme list
     \<Rightarrow> 'a fatura_paga_scheme list" where
  "marcar_loop ch j [] df = df"
| "marcar_loop ch j (c # cs) df =
     (let faturas_cliente = filter (\<lambda>r. cliente r = c) df;
          max_numero_fatura = Max (set (map numero_fatura faturas_cliente))
      in marcar_loop ch (Suc j) cs
           (if max_numero_fatura > 2
            then let fatura_aleatoria =
                       random_choice (range_py (max_numero_fatura - 1) max_numero_fatura) (ch j)
                 in map (\<lambda>r. if cliente r = c \<and> numero_fatura r = fatura_aleatoria
                              then r\<lparr>status_pago := False\<rparr> else r) df
            else df))"

definition marcar_faturas_pagas ::
  "'a fatura_scheme list \<Rightarrow> (nat \<Rightarrow> nat) \<Rightarrow> 'a fatura_paga_scheme list" where
  "marcar_faturas_pagas df0 ch =
     (let df1 = map (\<lambda>r. \<lparr>cliente = cliente r, vl_fatura = vl_fatura r,
                           numero_fatura = numero_fatura r, status_pago = True,
                           \<dots> = fatura.more r\<rparr>) df0;
          recentes = map (idxmax_numero_fatura df1) (unique (map cliente df1));
          df2 = map (\<lambda>i. if i \<in> set recentes then (df1 ! i)\<lparr>status_pago := False\<rparr> else df1 ! i)
                  [0..<length df1]
      in marcar_loop ch 0 (unique (map cliente df2)) df2)"


section \<open>Rolling Feature Engine: \<^verbatim>\<open>calcular_media_vl_fatura\<close>, \<^verbatim>\<open>calcular_sd_vl_fatura\<close>\<close>

text \<open>
  Both stages sort the table, start the output column at \<^verbatim>\<open>NaN\<close> and fill it customer by
  customer, row by row.  The output column is a new column, as in every call of the
  pipeline, so the writes do not change what \<^verbatim>\<open>coluna_valor\<close> reads.
\<close>

definition calcular_media_vl_fatura ::
  "'a fatura_scheme list \<Rightarrow> ('a fatura_scheme \<Rightarrow> real) \<Rightarrow> ('a fatura_scheme \<times> pyfloat) list" where
  "calcular_media_vl_fatura df0 coluna_valor =
     (let df = sort_values df0;
          saida0 = replicate (length df) NaN;
          saida = fold (\<lambda>c saida.
                    let indices = cliente_indices df c
                    in fold (\<lambda>i saida.
                         let numero = numero_fatura (df ! i)
                         in if numero = 1 \<or> numero = 2
                            then saida[i := Fin (coluna_valor (df ! (indices ! 0)))]
                            else let faturas_anteriores =
                                       map (\<lambda>j. coluna_valor (df ! j))
                                         (filter (\<lambda>j. numero_fatura (df ! j) < numero) indices)
                                 in saida[i := mean_pd (tail_pd 12 faturas_anteriores)])
                       indices saida)
                    (unique (map cliente df)) saida0
      in zip df saida)"

definition calcular_sd_vl_fatura ::
  "'a fatura_scheme list \<Rightarrow> ('a fatura_scheme \<Rightarrow> real) \<Rightarrow> ('a fatura_scheme \<times> pyfloat) list" where
  "calcular_sd_vl_fatura df0 coluna_valor =
     (let df = sort_values df0;
          saida0 = replicate (length df) NaN;
          saida = fold (\<lambda>c saida.
                    let indices = cliente_indices df c
                    in fold (\<lambda>i saida.
                         let numero = numero_fatura (df ! i)
                         in if numero = 1 \<or> numero = 2
                            then saida[i := Fin 0]
                            else let faturas_anteriores =
                                       map (\<lambda>j. coluna_valor (df ! j))
                                         (filter (\<lambda>j. numero_fatura (df ! j) < numero) indices)
                                 in saida[i := std_pd (tail_pd 12 faturas_anteriores)])
                       indices saida)
                    (unique (map cliente df)) saida0
      in zip df saida)"


section \<open>Z-Score Calculator: \<^verbatim>\<open>calcular_zscore_faturas\<close>\<close>

text \<open>
  \<^verbatim>\<open>np.where(cond, a, b)\<close> computes both columns \<open>a\<close> and \<open>b\<close> in full and then selects
  row by row; the quotient by a zero deviation is computed (an infinity or \<^verbatim>\<open>NaN\<close>, no
  exception) and dropped.
\<close>

definition calcular_zscore_faturas ::
  "'r list \<Rightarrow> ('r \<Rightarrow> real) \<Rightarrow> ('r \<Rightarrow> pyfloat) \<Rightarrow> ('r \<Rightarrow> pyfloat) \<Rightarrow> ('r \<times> pyfloat) list" where
  "calcular_zscore_faturas df coluna_valor coluna_media coluna_sd =
     (let quociente = map (\<lambda>r. fdiv (fsub (Fin (coluna_valor r)) (coluna_media r)) (coluna_sd r)) df
      in map (\<lambda>(r, q). (r, if coluna_sd r \<noteq> Fin 0 then q else Fin 0)) (zip df quociente))"


section \<open>Payment Timing Simulator\<close>

text \<open>
  \<^verbatim>\<open>marcar_pagamento_antes_vencimento\<close>: one \<^verbatim>\<open>random.choice([True, False])\<close> for every
  paid row; \<open>ch i\<close> is the raw draw used at row \<open>i\<close>.
\<close>

definition marcar_pagamento_antes_vencimento ::
  "'a fatura_paga_scheme list \<Rightarrow> (nat \<Rightarrow> nat) \<Rightarrow> 'a fatura_vencimento_scheme list" where
  "marcar_pagamento_antes_vencimento df ch =
     map (\<lambda>i. \<lparr>cliente = cliente (df ! i), vl_fatura = vl_fatura (df ! i),
                numero_fatura = numero_fatura (df ! i), status_pago = status_pago (df ! i),
                pago_antes_vencimento =
                  (if status_pago (df ! i) then random_choice [True, False] (ch i) else False),
                \<dots> = fatura_paga.more (df ! i)\<rparr>)
       [0..<length df]"

text \<open>
  \<^verbatim>\<open>calcular_dias_pagamento\<close>: \<^verbatim>\<open>df.apply(calcular_dias, axis=1)\<close> calls the inner function
  row by row; the first call that raises ends the stage.  \<open>u i\<close> is the raw draw of row
  \<open>i\<close>.
\<close>

definition calcular_dias ::
  "int \<Rightarrow> int \<Rightarrow> int \<Rightarrow> int \<Rightarrow> 'a fatura_vencimento_scheme \<Rightarrow> nat \<Rightarrow> error + int" where
  "calcular_dias dias_min_atraso dias_max_atraso dias_min_antecipado dias_max_antecipado x u =
     (if pago_antes_vencimento x
      then random_randint dias_min_antecipado dias_max_antecipado u
      else random_randint dias_min_atraso dias_max_atraso u)"

fun apply_calcular_dias ::
  "int \<Rightarrow> int \<Rightarrow> int \<Rightarrow> int \<Rightarrow> (nat \<Rightarrow> nat) \<Rightarrow> nat \<Rightarrow> 'a fatura_vencimento_scheme list
     \<Rightarrow> error + 'a fatura_dias_scheme list" where
  "apply_calcular_dias a_min a_max e_min e_max u i [] = Inr []"
| "apply_calcular_dias a_min a_max e_min e_max u i (x # xs) =
     (case calcular_dias a_min a_max e_min e_max x (u i) of
        Inl e \<Rightarrow> Inl e
      | Inr d \<Rightarrow>
          (case apply_calcular_dias a_min a_max e_min e_max u (Suc i) xs of
             Inl e \<Rightarrow> Inl e
           | Inr rest \<Rightarrow>
               Inr (\<lparr>cliente = cliente x, vl_fatura = vl_fatura x,
                     numero_fatura = numero_fatura x, status_pago = status_pago x,
                     pago_antes_vencimento = pago_antes_vencimento x, dias_pagamento = d,
                     \<dots> = fatura_vencimento.more x\<rparr> # rest)))"

definition calcular_dias_pagamento ::
  "'a fatura_vencimento_scheme list \<Rightarrow> int \<Rightarrow> int \<Rightarrow> int \<Rightarrow> int \<Rightarrow> (nat \<Rightarrow> nat)
     \<Rightarrow> error + 'a fatura_dias_scheme list" where
  "calcular_dias_pagamento df dias_min_atraso dias_max_atraso dias_min_antecipado dias_max_antecipado u =
     apply_calcular_dias dias_min_atraso dias_max_atraso dias_min_antecipado dias_max_antecipado u 0 df"


section \<open>Open-Invoice Frequency Counter: \<^verbatim>\<open>calcular_frequencia_faturas_aberto_12_meses\<close>\<close>

definition calcular_frequencia_faturas_aberto_12_meses ::
  "'a fatura_scheme list \<Rightarrow> ('a fatura_scheme \<Rightarrow> bool) \<Rightarrow> ('a fatura_scheme \<times> int) list" where
  "calcular_frequencia_faturas_aberto_12_meses df0 coluna_status =
     (let saida0 = replicate (length df0) 0;
          df = sort_values df0;
          saida = fold (\<lambda>c saida.
                    let idxs = cliente_indices df c;
                        faturas_cliente = map (\<lambda>i. df ! i) idxs
                    in fold (\<lambda>idx saida.
                         let fatura = df ! idx;
                             limite_superior = numero_fatura fatura - 1;
                             limite_inferior = max 1 (limite_superior - 12);
                             faturas_anteriores =
                               filter (\<lambda>r. numero_fatura r \<le> limite_superior
                                            \<and> numero_fatura r > limite_inferior) faturas_cliente
                         in saida[idx := sum_list (map (\<lambda>r. if \<not> coluna_status r then 1 else 0)
                                                    faturas_anteriores)])
                       idxs saida)
                    (unique (map cliente df)) saida0
      in zip df saida)"


section \<open>Total-Due Aggregator: \<^verbatim>\<open>calcular_total_devido\<close>\<close>

definition calcular_total_devido ::
  "'a fatura_scheme list \<Rightarrow> ('a fatura_scheme \<Rightarrow> bool) \<Rightarrow> ('a fatura_scheme \<Rightarrow> bool)
     \<Rightarrow> ('a fatura_scheme \<Rightarrow> real) \<Rightarrow> ('a fatura_scheme \<times> real) list" where
  "calcular_total_devido df0 coluna_status_pago coluna_pago_antes_vencimento coluna_valor =
     (let saida0 = replicate (length df0) 0;
          df = sort_values df0;
          saida = fold (\<lambda>c saida.
                    let idxs = cliente_indices df c;
                        faturas_cliente = map (\<lambda>i. df ! i) idxs
                    in fold (\<lambda>idx saida.
                         let fatura_atual = df ! idx;
                             numero_fatura_atual = numero_fatura fatura_atual;
                             faturas_analisadas =
                               (if coluna_status_pago fatura_atual
                                then let limite_inferior = max 1 (numero_fatura_atual - 3)
                                     in filter (\<lambda>r. numero_fatura r \<ge> limite_inferior
                                                    \<and> numero_fatura r < numero_fatura_atual
                                                    \<and> coluna_pago_antes_vencimento r = False)
                                          faturas_cliente
                                else let limite_inferior = max 1 (numero_fatura_atual - 12)
                                     in filter (\<lambda>r. numero_fatura r \<ge> limite_inferior
                                                    \<and> numero_fatura r < numero_fatura_atual
                                                    \<and> coluna_status_pago r = False)
                                          faturas_cliente);
                             total_devido = sum_list (map coluna_valor faturas_analisadas)
                         in saida[idx := total_devido])
                       idxs saida)
                    (unique (map cliente df)) saida0
      in zip df saida)"



section \<open>Customer Generator and Pipeline Orchestrator\<close>













section \<open>Notions used to state the properties\<close>

text \<open>
  The data model numbers the invoices of a customer \<open>1, ..., N\<close> without gap or repeat,
  in any row order: \<open>numeracao_ok df c\<close> says so for customer \<open>c\<close> of table \<open>df\<close>.
\<close>

definition numeracao_ok :: "'a fatura_scheme list \<Rightarrow> string \<Rightarrow> bool" where
  "numeracao_ok df c =
     (let ns = map numero_fatura (filter (\<lambda>r. cliente r = c) df)
      in sort ns = [1..int (length ns)])"

text \<open>The largest sequence number of customer \<open>c\<close>.\<close>

abbreviation (input) max_numero :: "'a fatura_scheme list \<Rightarrow> string \<Rightarrow> int" where
  "max_numero df c \<equiv> Max (set (map numero_fatura (filter (\<lambda>r. cliente r = c) df)))"


text \<open>The entries of a column at the invoices of customer \<open>c\<close> numbered \<open>j\<close>.\<close>

definition valores_fatura ::
  "'a fatura_scheme list \<Rightarrow> ('a fatura_scheme \<Rightarrow> 'v) \<Rightarrow> string \<Rightarrow> int \<Rightarrow> 'v list" where
  "valores_fatura df coluna c j =
     map coluna (filter (\<lambda>r. cliente r = c \<and> numero_fatura r = j) df)"

text \<open>
  The trailing window of invoice \<open>k\<close> of customer \<open>c\<close>: the column at the invoices
  numbered \<open>max 1 (k - 12), ..., k - 1\<close>, in this order.
\<close>

definition janela_12 ::
  "'a fatura_scheme list \<Rightarrow> ('a fatura_scheme \<Rightarrow> 'v) \<Rightarrow> string \<Rightarrow> int \<Rightarrow> 'v list" where
  "janela_12 df coluna c k = concat (map (valores_fatura df coluna c) [max 1 (k - 12)..k - 1])"


text \<open>
  The z-score of one invoice in the words of the specification: \<open>(value - mean) / sd\<close>
  if \<open>sd \<noteq> 0\<close>, else \<open>0\<close>, in the arithmetic of floats.
\<close>

definition zscore_spec :: "real \<Rightarrow> pyfloat \<Rightarrow> pyfloat \<Rightarrow> pyfloat" where
  "zscore_spec v m s = (if s \<noteq> Fin 0 then fdiv (fsub (Fin v) m) s else Fin 0)"


section \<open>Example tables\<close>

text \<open>
  A table with the fifteen invoices of customer \<open>A\<close>, out of order, the amount of invoice
  \<open>n\<close> being \<open>n\<close>, and one invoice of customer \<open>B\<close>.
\<close>

definition df_quinze :: "fatura list" where
  "df_quinze =
     map (\<lambda>n. \<lparr>cliente = ''A'', vl_fatura = of_int n, numero_fatura = n\<rparr>) [8..15]
     @ [\<lparr>cliente = ''B'', vl_fatura = 999, numero_fatura = 1\<rparr>]
     @ map (\<lambda>n. \<lparr>cliente = ''A'', vl_fatura = of_int n, numero_fatura = n\<rparr>) [1..7]"


text \<open>Two invoices of one customer with their payment status.\<close>

definition df_pagas :: "fatura_paga list" where
  "df_pagas =
     [\<lparr>cliente = ''A'', vl_fatura = 100, numero_fatura = 1, status_pago = True\<rparr>,
      \<lparr>cliente = ''A'', vl_fatura = 100, numero_fatura = 2, status_pago = False\<rparr>]"


text \<open>Invoices of two customers with both status columns, out of order.\<close>

definition df_aberto :: "fatura_vencimento list" where
  "df_aberto =
     [\<lparr>cliente = ''A'', vl_fatura = 10, numero_fatura = 3, status_pago = True, pago_antes_vencimento = False\<rparr>,
      \<lparr>cliente = ''A'', vl_fatura = 20, numero_fatura = 1, status_pago = True, pago_antes_vencimento = False\<rparr>,
      \<lparr>cliente = ''B'', vl_fatura = 40, numero_fatura = 1, status_pago = False, pago_antes_vencimento = False\<rparr>,
      \<lparr>cliente = ''A'', vl_fatura = 30, numero_fatura = 2, status_pago = False, pago_antes_vencimento = False\<rparr>,
      \<lparr>cliente = ''A'', vl_fatura = 50, numero_fatura = 4, status_pago = False, pago_antes_vencimento = False\<rparr>]"

text \<open>Four invoices of customer \<open>A\<close> and two of customer \<open>B\<close>, out of order.\<close>

definition df_tres :: "fatura list" where
  "df_tres =
     [\<lparr>cliente = ''A'', vl_fatura = 10, numero_fatura = 3\<rparr>,
      \<lparr>cliente = ''A'', vl_fatura = 20, numero_fatura = 1\<rparr>,
      \<lparr>cliente = ''B'', vl_fatura = 40, numero_fatura = 1\<rparr>,
      \<lparr>cliente = ''A'', vl_fatura = 30, numero_fatura = 2\<rparr>,
      \<lparr>cliente = ''B'', vl_fatura = 60, numero_fatura = 2\<rparr>,
      \<lparr>cliente = ''A'', vl_fatura = 50, numero_fatura = 4\<rparr>]"


text \<open>A random source for the examples.\<close>

definition rng_exemplo :: rng where
  "rng_exemplo = \<lparr>rand_counts = (\<lambda>i. i + 1), rand_medias = (\<lambda>i. 1 / 2),
                   rand_desvios = (\<lambda>i. 1 / 2), rand_normal = (\<lambda>i j. 0)\<rparr>"





section \<open>Sequence numbers\<close>

lemma length_cumcount_from: "length (cumcount_from seen ks) = length ks"
  by (induction ks arbitrary: seen) simp_all

lemma cumcount_from_filter:
  "map snd (filter (\<lambda>p. fst p = c) (zip ks (cumcount_from seen ks)))
     = [count_list seen c ..< count_list seen c + count_list ks c]"
proof (induction ks arbitrary: seen)
  case Nil
  show ?case by simp
next
  case (Cons k ks)
  show ?case
  proof (cases "k = c")
    case True
    have "[count_list seen c ..< count_list seen c + count_list (k # ks) c]
            = count_list seen c # [Suc (count_list seen c) ..< Suc (count_list seen c) + count_list ks c]"
      using True by (simp add: upt_rec)
    then show ?thesis using True Cons.IH [of "seen @ [k]"] by simp
  next
    case False
    then show ?thesis using Cons.IH [of "seen @ [k]"] by simp
  qed
qed

lemma map_int_Suc_upt: "map (\<lambda>n. int n + 1) [0..<m] = [1..int m]"
proof (induction m)
  case 0
  show ?case by simp
next
  case (Suc m)
  have "[1..int (Suc m)] = [1..int m] @ [int m + 1]"
    using upto_rec2 [of 1 "int (Suc m)"] by simp
  then show ?case using Suc by simp
qed

lemma numero_fatura_cumcount:
  fixes dados :: "(string \<times> real) list"
  defines "df \<equiv> map (\<lambda>((c, v), n). \<lparr>cliente = c, vl_fatura = v, numero_fatura = int n + 1\<rparr>)
                   (zip dados (cumcount (map fst dados)))"
  shows "map numero_fatura (filter (\<lambda>r. cliente r = c) df)
           = [1..int (length (filter (\<lambda>r. cliente r = c) df))]"
proof -
  let ?ks = "map fst dados"
  let ?ns = "cumcount_from [] ?ks"
  have len: "length ?ns = length dados" by (simp add: length_cumcount_from)
  have zip_eq: "zip ?ks ?ns = map (\<lambda>(d, n). (fst d, n)) (zip dados ?ns)"
    using len by (simp add: zip_map1 case_prod_beta)
  have "map numero_fatura (filter (\<lambda>r. cliente r = c) df)
          = map (\<lambda>n. int n + 1) (map snd (filter (\<lambda>p. fst p = c) (zip ?ks ?ns)))"
    unfolding df_def cumcount_def zip_eq
    by (simp add: filter_map o_def case_prod_beta)
  also have "\<dots> = map (\<lambda>n. int n + 1) [0..<count_list ?ks c]"
    by (simp add: cumcount_from_filter)
  also have "\<dots> = [1..int (count_list ?ks c)]" by (rule map_int_Suc_upt)
  finally have eq: "map numero_fatura (filter (\<lambda>r. cliente r = c) df) = [1..int (count_list ?ks c)]" .
  from arg_cong [OF eq, of length]
  have "length (filter (\<lambda>r. cliente r = c) df) = count_list ?ks c" by simp
  with eq show ?thesis by simp
qed

text \<open>
  Claim C7.  In the table that \<^verbatim>\<open>gerar_faturas\<close> returns, the sequence numbers of the
  invoices of every customer, read in generation order, are exactly \<open>1, 2, ..., N\<close>, where
  \<open>N\<close> is the number of invoices of that customer: no gap and no repeat.
\<close>

theorem gerar_faturas_numero_fatura:
  assumes "gerar_faturas clientes n_faturas_min n_faturas_max valor_minimo valor_maximo
             sd_min sd_max g = Inr df"
  shows "map numero_fatura (filter (\<lambda>r. cliente r = c) df)
           = [1..int (length (filter (\<lambda>r. cliente r = c) df))]"
proof -
  from assms obtain dados where
    "df = map (\<lambda>((c, v), n). \<lparr>cliente = c, vl_fatura = v, numero_fatura = int n + 1\<rparr>)
            (zip dados (cumcount (map fst dados)))"
    by (auto simp: gerar_faturas_def Let_def split: sum.splits)
  then show ?thesis using numero_fatura_cumcount [of c dados] by simp
qed

theorem gerar_faturas_numero_fatura_witness:
  "gerar_faturas [''A'', ''B''] 1 3 60 500 2 5 rng_exemplo
     = Inr [\<lparr>cliente = ''A'', vl_fatura = 280, numero_fatura = 1\<rparr>,
            \<lparr>cliente = ''A'', vl_fatura = 280, numero_fatura = 2\<rparr>,
            \<lparr>cliente = ''B'', vl_fatura = 280, numero_fatura = 1\<rparr>,
            \<lparr>cliente = ''B'', vl_fatura = 280, numero_fatura = 2\<rparr>,
            \<lparr>cliente = ''B'', vl_fatura = 280, numero_fatura = 3\<rparr>]
   \<and> map numero_fatura (filter (\<lambda>r. cliente r = ''B'')
          [\<lparr>cliente = ''A'', vl_fatura = 280, numero_fatura = 1\<rparr>,
           \<lparr>cliente = ''A'', vl_fatura = 280, numero_fatura = 2\<rparr>,
           \<lparr>cliente = ''B'', vl_fatura = 280, numero_fatura = 1\<rparr>,
           \<lparr>cliente = ''B'', vl_fatura = 280, numero_fatura = 2\<rparr>,
           \<lparr>cliente = ''B'', vl_fatura = 280, numero_fatura = 3\<rparr>]) = [1..3]"
proof -
  have h: "gerar_faturas [''A'', ''B''] 1 3 60 500 2 5 rng_exemplo
     = Inr [\<lparr>cliente = ''A'', vl_fatura = 280, numero_fatura = 1\<rparr>,
            \<lparr>cliente = ''A'', vl_fatura = 280, numero_fatura = 2\<rparr>,
            \<lparr>cliente = ''B'', vl_fatura = 280, numero_fatura = 1\<rparr>,
            \<lparr>cliente = ''B'', vl_fatura = 280, numero_fatura = 2\<rparr>,
            \<lparr>cliente = ''B'', vl_fatura = 280, numero_fatura = 3\<rparr>]"
    by code_simp
  from gerar_faturas_numero_fatura [OF h, of "''B''"] h show ?thesis by simp
qed


section \<open>Loops that fill a column\<close>

lemma length_fold_assign: "length (fold (\<lambda>i s. s[i := f i]) idxs out) = length out"
  by (induction idxs arbitrary: out) simp_all

lemma fold_assign_nth:
  "j < length out \<Longrightarrow>
     fold (\<lambda>i s. s[i := f i]) idxs out ! j = (if j \<in> set idxs then f j else out ! j)"
proof (induction idxs arbitrary: out)
  case Nil
  show ?case by simp
next
  case (Cons i idxs)
  from Cons.prems have "j < length (out[i := f i])" by simp
  from Cons.IH [OF this] Cons.prems show ?case by (simp add: nth_list_update)
qed

lemma set_cliente_indices: "set (cliente_indices df c) = {i. i < length df \<and> cliente (df ! i) = c}"
  by (auto simp: cliente_indices_def)

lemma length_fold_clientes:
  "length (fold (\<lambda>c s. fold (\<lambda>i s. s[i := F c i]) (cliente_indices df c) s) cs out) = length out"
  by (induction cs arbitrary: out) (simp_all add: length_fold_assign)

lemma fold_clientes_nth:
  assumes "j < length out" "length out = length df"
  shows "fold (\<lambda>c s. fold (\<lambda>i s. s[i := F c i]) (cliente_indices df c) s) cs out ! j
           = (if cliente (df ! j) \<in> set cs then F (cliente (df ! j)) j else out ! j)"
  using assms
proof (induction cs arbitrary: out)
  case Nil
  show ?case by simp
next
  case (Cons c cs)
  let ?out' = "fold (\<lambda>i s. s[i := F c i]) (cliente_indices df c) out"
  have len: "j < length ?out'" "length ?out' = length df"
    using Cons.prems by (simp_all add: length_fold_assign)
  have step: "?out' ! j = (if cliente (df ! j) = c then F c j else out ! j)"
    using Cons.prems by (simp add: fold_assign_nth set_cliente_indices)
  show ?case using Cons.IH [OF len] step by auto
qed

lemma set_unique: "set (unique xs) = set xs"
  by (simp add: unique_def)

lemma fold_clientes_column:
  assumes "length out = length df"
  shows "fold (\<lambda>c s. fold (\<lambda>i s. s[i := F c i]) (cliente_indices df c) s)
           (unique (map cliente df)) out
         = map (\<lambda>j. F (cliente (df ! j)) j) [0..<length df]"
proof (rule nth_equalityI)
  show "length (fold (\<lambda>c s. fold (\<lambda>i s. s[i := F c i]) (cliente_indices df c) s)
           (unique (map cliente df)) out) = length (map (\<lambda>j. F (cliente (df ! j)) j) [0..<length df])"
    using assms by (simp add: length_fold_clientes)
next
  fix j assume "j < length (fold (\<lambda>c s. fold (\<lambda>i s. s[i := F c i]) (cliente_indices df c) s)
           (unique (map cliente df)) out)"
  then have j: "j < length df" using assms by (simp add: length_fold_clientes)
  then have "cliente (df ! j) \<in> set (unique (map cliente df))" by (simp add: set_unique)
  then show "fold (\<lambda>c s. fold (\<lambda>i s. s[i := F c i]) (cliente_indices df c) s)
           (unique (map cliente df)) out ! j = map (\<lambda>j. F (cliente (df ! j)) j) [0..<length df] ! j"
    using j assms by (simp add: fold_clientes_nth)
qed

lemma map_nth_cliente_indices:
  "map (\<lambda>i. df ! i) (cliente_indices df c) = filter (\<lambda>r. cliente r = c) df"
proof -
  have "filter (\<lambda>r. cliente r = c) df = filter (\<lambda>r. cliente r = c) (map (\<lambda>i. df ! i) [0..<length df])"
    by (simp add: map_nth)
  also have "\<dots> = map (\<lambda>i. df ! i) (cliente_indices df c)"
    by (simp add: filter_map cliente_indices_def o_def)
  finally show ?thesis by simp
qed

lemma map_nth_filter_indices:
  "map (\<lambda>j. g (df ! j)) (filter (\<lambda>j. P (df ! j)) (cliente_indices df c))
     = map g (filter P (filter (\<lambda>r. cliente r = c) df))"
proof -
  have "map g (filter P (map (\<lambda>i. df ! i) (cliente_indices df c)))
          = map (\<lambda>j. g (df ! j)) (filter (\<lambda>j. P (df ! j)) (cliente_indices df c))"
    by (simp add: filter_map o_def)
  then show ?thesis by (simp add: map_nth_cliente_indices)
qed

lemma zip_map_nth: "zip df (map (\<lambda>j. G (df ! j)) [0..<length df]) = map (\<lambda>r. (r, G r)) df"
  by (rule nth_equalityI) simp_all

lemma stage_rows:
  assumes "length out0 = length df"
    and "\<And>j. j < length df \<Longrightarrow> F (cliente (df ! j)) j = G (df ! j)"
  shows "zip df (fold (\<lambda>c s. fold (\<lambda>i s. s[i := F c i]) (cliente_indices df c) s)
                  (unique (map cliente df)) out0)
           = map (\<lambda>r. (r, G r)) df"
proof -
  have "map (\<lambda>j. F (cliente (df ! j)) j) [0..<length df] = map (\<lambda>j. G (df ! j)) [0..<length df]"
    using assms(2) by simp
  then have "fold (\<lambda>c s. fold (\<lambda>i s. s[i := F c i]) (cliente_indices df c) s)
               (unique (map cliente df)) out0 = map (\<lambda>j. G (df ! j)) [0..<length df]"
    using fold_clientes_column [OF assms(1), of F] by simp
  then show ?thesis by (simp only: zip_map_nth)
qed

lemma nth_cliente_indices_0:
  assumes "j < length df"
  shows "df ! (cliente_indices df (cliente (df ! j)) ! 0)
           = hd (filter (\<lambda>x. cliente x = cliente (df ! j)) df)"
proof -
  let ?c = "cliente (df ! j)"
  have "j \<in> set (cliente_indices df ?c)" using assms by (simp add: set_cliente_indices)
  then have ne: "cliente_indices df ?c \<noteq> []" by auto
  have "df ! (cliente_indices df ?c ! 0) = hd (map (\<lambda>i. df ! i) (cliente_indices df ?c))"
    using ne by (simp add: hd_map hd_conv_nth)
  then show ?thesis by (simp add: map_nth_cliente_indices)
qed

lemma entries_of_rows:
  "{v. (r, v) \<in> set (map (\<lambda>x. (x, G x)) df)} = (if r \<in> set df then {G r} else {})"
  by auto


section \<open>The rows of one customer in the sorted table\<close>

lemma sorted_cliente_numero:
  "sorted (map numero_fatura (filter (\<lambda>r. cliente r = c) (sort_values df0)))"
proof -
  let ?key = "\<lambda>r. (cliente r, numero_fatura r)"
  let ?fc = "filter (\<lambda>r. cliente r = c) (sort_values df0)"
  have "sorted (map ?key ?fc)"
    unfolding sort_values_def by (rule sorted_filter) simp
  then have "sorted_wrt (\<lambda>x y. ?key x \<le> ?key y) ?fc" by (simp add: sorted_map)
  then have "sorted_wrt (\<lambda>x y. numero_fatura x \<le> numero_fatura y) ?fc"
    by (rule sorted_wrt_mono_rel [rotated]) (auto simp: less_eq_prod_def)
  then show ?thesis by (simp add: sorted_map)
qed

lemma mset_filter_sort_values:
  "mset (filter P (sort_values df0)) = mset (filter P df0)"
  by (simp add: sort_values_def)

lemma numero_cliente_sorted:
  assumes "numeracao_ok df0 c"
  shows "map numero_fatura (filter (\<lambda>r. cliente r = c) (sort_values df0))
           = [1..int (length (filter (\<lambda>r. cliente r = c) (sort_values df0)))]"
proof -
  let ?fc = "filter (\<lambda>r. cliente r = c) (sort_values df0)"
  let ?f0 = "filter (\<lambda>r. cliente r = c) df0"
  have m: "mset ?fc = mset ?f0" by (rule mset_filter_sort_values)
  then have len: "length ?fc = length ?f0" by (rule mset_eq_length)
  have "mset (map numero_fatura ?fc) = mset (map numero_fatura ?f0)"
    using m by (metis mset_map)
  then have "sort (map numero_fatura ?f0) = map numero_fatura ?fc"
    by (rule properties_for_sort) (rule sorted_cliente_numero)
  with assms len show ?thesis by (simp add: numeracao_ok_def Let_def)
qed

lemma numbered_nth:
  assumes "map f xs = [1..int (length xs)]" "i < length xs"
  shows "f (xs ! i) = int i + 1"
proof -
  have "f (xs ! i) = map f xs ! i" using assms(2) by simp
  also have "\<dots> = 1 + int i" unfolding assms(1) using assms(2) by (subst nth_upto) simp_all
  finally show ?thesis by simp
qed

lemma numbered_filter_less:
  assumes "map f xs = [1..int (length xs)]"
  shows "filter (\<lambda>x. f x < k) xs = take (nat (k - 1)) xs"
proof -
  let ?m = "nat (k - 1)"
  have a: "filter (\<lambda>x. f x < k) (take ?m xs) = take ?m xs"
  proof (rule filter_True, clarify)
    fix x assume "x \<in> set (take ?m xs)"
    then obtain i where "i < length xs" "i < ?m" "x = xs ! i"
      by (auto simp: in_set_conv_nth)
    then show "f x < k" using numbered_nth [OF assms, of i] by simp
  qed
  have b: "filter (\<lambda>x. f x < k) (drop ?m xs) = []"
  proof (rule filter_False, clarify)
    fix x assume "x \<in> set (drop ?m xs)" "f x < k"
    then obtain i where i: "i < length xs - ?m" "x = xs ! (?m + i)"
      by (auto simp: in_set_conv_nth)
    then have "?m + i < length xs" by simp
    from numbered_nth [OF assms this] i(2) \<open>f x < k\<close> show False by (simp split: if_splits)
  qed
  have "filter (\<lambda>x. f x < k) xs = filter (\<lambda>x. f x < k) (take ?m xs @ drop ?m xs)" by simp
  also have "\<dots> = take ?m xs" unfolding filter_append a b by simp
  finally show ?thesis .
qed

lemma numbered_filter_eq:
  assumes "map f xs = [1..int (length xs)]" "1 \<le> j" "j \<le> int (length xs)"
  shows "filter (\<lambda>x. f x = j) xs = [xs ! nat (j - 1)]"
proof -
  let ?i = "nat (j - 1)"
  have i: "?i < length xs" using assms(2,3) by simp
  have a: "filter (\<lambda>x. f x = j) (take ?i xs) = []"
  proof (rule filter_False, rule ballI, rule notI)
    fix x assume "x \<in> set (take ?i xs)" and fx: "f x = j"
    then obtain i' where "i' < length xs" "i' < ?i" "x = xs ! i'"
      by (auto simp: in_set_conv_nth)
    then show False using numbered_nth [OF assms(1), of i'] fx by simp
  qed
  have b: "filter (\<lambda>x. f x = j) (drop (Suc ?i) xs) = []"
  proof (rule filter_False, rule ballI, rule notI)
    fix x assume "x \<in> set (drop (Suc ?i) xs)" and fx: "f x = j"
    then obtain i' where i': "i' < length xs - Suc ?i" "x = xs ! (Suc ?i + i')"
      by (auto simp: in_set_conv_nth)
    then have "Suc ?i + i' < length xs" by simp
    from numbered_nth [OF assms(1) this] i'(2) fx assms(2) show False by simp
  qed
  have c: "f (xs ! ?i) = j" using numbered_nth [OF assms(1) i] assms(2) by simp
  have "filter (\<lambda>x. f x = j) xs = filter (\<lambda>x. f x = j) (take ?i xs @ xs ! ?i # drop (Suc ?i) xs)"
    using id_take_nth_drop [OF i] by simp
  also have "\<dots> = [xs ! ?i]" unfolding filter_append filter.simps a b using c by simp
  finally show ?thesis .
qed

lemma map_nat_upto: "map (\<lambda>j. nat (j - 1)) [int a + 1..int b] = [a..<b]"
proof (induction b)
  case 0
  show ?case by simp
next
  case (Suc b)
  show ?case
  proof (cases "a \<le> b")
    case True
    then have "[int a + 1..int (Suc b)] = [int a + 1..int b] @ [int b + 1]"
      using upto_rec2 [of "int a + 1" "int (Suc b)"] by simp
    then show ?thesis using Suc True by simp
  next
    case False
    then show ?thesis by simp
  qed
qed

lemma tail_take_nth:
  assumes "m \<le> length xs"
  shows "tail_pd 12 (map g (take m xs)) = map (\<lambda>i. g (xs ! i)) [m - 12..<m]"
proof -
  have "take m xs = take m (map (\<lambda>i. xs ! i) [0..<length xs])" by (simp add: map_nth)
  also have "\<dots> = map (\<lambda>i. xs ! i) [0..<m]" using assms by (simp add: take_map)
  finally have "map g (take m xs) = map (\<lambda>i. g (xs ! i)) [0..<m]" by simp
  then show ?thesis by (simp add: tail_pd_def drop_map)
qed

lemma valores_fatura_sorted:
  assumes "numeracao_ok df0 c" "1 \<le> j"
    and "j \<le> int (length (filter (\<lambda>r. cliente r = c) (sort_values df0)))"
  shows "valores_fatura df0 coluna c j
           = [coluna (filter (\<lambda>r. cliente r = c) (sort_values df0) ! nat (j - 1))]"
proof -
  let ?fc = "filter (\<lambda>r. cliente r = c) (sort_values df0)"
  have "mset (filter (\<lambda>r. cliente r = c \<and> numero_fatura r = j) df0)
          = mset (filter (\<lambda>r. cliente r = c \<and> numero_fatura r = j) (sort_values df0))"
    by (simp only: mset_filter_sort_values)
  also have "\<dots> = mset (filter (\<lambda>r. numero_fatura r = j) ?fc)"
    by (simp add: conj_commute)
  also have "\<dots> = mset [?fc ! nat (j - 1)]"
    using numbered_filter_eq [OF numero_cliente_sorted [OF assms(1)] assms(2,3)] by simp
  also have "\<dots> = {#?fc ! nat (j - 1)#}" by simp
  finally have "filter (\<lambda>r. cliente r = c \<and> numero_fatura r = j) df0 = [?fc ! nat (j - 1)]"
    by (rule mset_single_iff [THEN iffD1])
  then show ?thesis by (simp add: valores_fatura_def)
qed

lemma janela_12_sorted:
  assumes "numeracao_ok df0 c" "2 < k"
    and "k \<le> int (length (filter (\<lambda>r. cliente r = c) (sort_values df0)))"
  shows "janela_12 df0 coluna c k
           = tail_pd 12 (map coluna (filter (\<lambda>x. numero_fatura x < k)
                           (filter (\<lambda>r. cliente r = c) (sort_values df0))))"
proof -
  let ?fc = "filter (\<lambda>r. cliente r = c) (sort_values df0)"
  define m where "m = nat (k - 1)"
  have k: "k = int m + 1" using assms(2) by (simp add: m_def)
  have m: "m \<le> length ?fc" using assms(3) by (simp add: k)
  have range: "[max 1 (k - 12)..k - 1] = [int (m - 12) + 1..int m]"
    by (rule arg_cong2 [where f = upto]) (simp_all add: k)
  have "janela_12 df0 coluna c k
          = concat (map (\<lambda>j. [coluna (?fc ! nat (j - 1))]) [max 1 (k - 12)..k - 1])"
    unfolding janela_12_def
    using assms by (intro arg_cong [where f = concat] map_cong refl valores_fatura_sorted) simp_all
  also have "\<dots> = map (\<lambda>i. coluna (?fc ! i)) (map (\<lambda>j. nat (j - 1)) [max 1 (k - 12)..k - 1])"
    by (simp add: o_def)
  also have "\<dots> = map (\<lambda>i. coluna (?fc ! i)) [m - 12..<m]"
    by (simp only: range map_nat_upto)
  also have "\<dots> = tail_pd 12 (map coluna (take m ?fc))"
    by (rule tail_take_nth [OF m, symmetric])
  also have "\<dots> = tail_pd 12 (map coluna (filter (\<lambda>x. numero_fatura x < k) ?fc))"
    using numbered_filter_less [OF numero_cliente_sorted [OF assms(1)], of k] by (simp add: m_def)
  finally show ?thesis .
qed

section \<open>Rolling mean and standard deviation\<close>

lemma calcular_media_rows:
  "calcular_media_vl_fatura df0 coluna_valor =
     map (\<lambda>r. (r, if numero_fatura r = 1 \<or> numero_fatura r = 2
                   then Fin (coluna_valor (hd (filter (\<lambda>x. cliente x = cliente r) (sort_values df0))))
                   else mean_pd (tail_pd 12 (map coluna_valor
                          (filter (\<lambda>x. numero_fatura x < numero_fatura r)
                             (filter (\<lambda>x. cliente x = cliente r) (sort_values df0)))))))
       (sort_values df0)"
proof -
  let ?df = "sort_values df0"
  let ?F = "\<lambda>c i. if numero_fatura (?df ! i) = 1 \<or> numero_fatura (?df ! i) = 2
                   then Fin (coluna_valor (?df ! (cliente_indices ?df c ! 0)))
                   else mean_pd (tail_pd 12 (map (\<lambda>j. coluna_valor (?df ! j))
                          (filter (\<lambda>j. numero_fatura (?df ! j) < numero_fatura (?df ! i))
                             (cliente_indices ?df c))))"
  have inner: "(\<lambda>i saida. if numero_fatura (?df ! i) = 1 \<or> numero_fatura (?df ! i) = 2
                            then saida[i := Fin (coluna_valor (?df ! (cliente_indices ?df c ! 0)))]
                            else saida[i := mean_pd (tail_pd 12 (map (\<lambda>j. coluna_valor (?df ! j))
                                         (filter (\<lambda>j. numero_fatura (?df ! j) < numero_fatura (?df ! i))
                                         (cliente_indices ?df c))))])
              = (\<lambda>i s. s[i := ?F c i])" for c
    by (intro ext) simp
  show ?thesis
    unfolding calcular_media_vl_fatura_def Let_def inner
  proof (rule stage_rows)
    show "length (replicate (length ?df) NaN) = length ?df" by simp
  next
    fix j assume j: "j < length ?df"
    show "?F (cliente (?df ! j)) j =
            (if numero_fatura (?df ! j) = 1 \<or> numero_fatura (?df ! j) = 2
             then Fin (coluna_valor (hd (filter (\<lambda>x. cliente x = cliente (?df ! j)) ?df)))
             else mean_pd (tail_pd 12 (map coluna_valor
                    (filter (\<lambda>x. numero_fatura x < numero_fatura (?df ! j))
                       (filter (\<lambda>x. cliente x = cliente (?df ! j)) ?df)))))"
      using nth_cliente_indices_0 [OF j]
        map_nth_filter_indices [of coluna_valor ?df
          "\<lambda>x. numero_fatura x < numero_fatura (?df ! j)" "cliente (?df ! j)"]
      by simp
  qed
qed

lemma calcular_sd_rows:
  "calcular_sd_vl_fatura df0 coluna_valor =
     map (\<lambda>r. (r, if numero_fatura r = 1 \<or> numero_fatura r = 2
                   then Fin 0
                   else std_pd (tail_pd 12 (map coluna_valor
                          (filter (\<lambda>x. numero_fatura x < numero_fatura r)
                             (filter (\<lambda>x. cliente x = cliente r) (sort_values df0)))))))
       (sort_values df0)"
proof -
  let ?df = "sort_values df0"
  let ?F = "\<lambda>c i. if numero_fatura (?df ! i) = 1 \<or> numero_fatura (?df ! i) = 2
                   then Fin 0
                   else std_pd (tail_pd 12 (map (\<lambda>j. coluna_valor (?df ! j))
                          (filter (\<lambda>j. numero_fatura (?df ! j) < numero_fatura (?df ! i))
                             (cliente_indices ?df c))))"
  have inner: "(\<lambda>i saida. if numero_fatura (?df ! i) = 1 \<or> numero_fatura (?df ! i) = 2
                            then saida[i := Fin 0]
                            else saida[i := std_pd (tail_pd 12 (map (\<lambda>j. coluna_valor (?df ! j))
                                         (filter (\<lambda>j. numero_fatura (?df ! j) < numero_fatura (?df ! i))
                                         (cliente_indices ?df c))))])
              = (\<lambda>i s. s[i := ?F c i])" for c
    by (intro ext) simp
  show ?thesis
    unfolding calcular_sd_vl_fatura_def Let_def inner
  proof (rule stage_rows)
    show "length (replicate (length ?df) NaN) = length ?df" by simp
  next
    fix j assume j: "j < length ?df"
    show "?F (cliente (?df ! j)) j =
            (if numero_fatura (?df ! j) = 1 \<or> numero_fatura (?df ! j) = 2
             then Fin 0
             else std_pd (tail_pd 12 (map coluna_valor
                    (filter (\<lambda>x. numero_fatura x < numero_fatura (?df ! j))
                       (filter (\<lambda>x. cliente x = cliente (?df ! j)) ?df)))))"
      using map_nth_filter_indices [of coluna_valor ?df
          "\<lambda>x. numero_fatura x < numero_fatura (?df ! j)" "cliente (?df ! j)"]
      by simp
  qed
qed

lemma set_sort_values: "set (sort_values df) = set df"
  by (simp add: sort_values_def)

lemma numero_le_length:
  assumes "numeracao_ok df c" "r \<in> set df" "cliente r = c"
  shows "1 \<le> numero_fatura r"
    and "numero_fatura r \<le> int (length (filter (\<lambda>x. cliente x = c) (sort_values df)))"
proof -
  let ?fc = "filter (\<lambda>x. cliente x = c) (sort_values df)"
  have "r \<in> set ?fc" using assms(2,3) by (simp add: set_sort_values)
  then have "numero_fatura r \<in> set (map numero_fatura ?fc)" by auto
  then have "numero_fatura r \<in> set [1..int (length ?fc)]"
    by (simp only: numero_cliente_sorted [OF assms(1)])
  then show "1 \<le> numero_fatura r" "numero_fatura r \<le> int (length ?fc)" by simp_all
qed

lemma length_janela_12:
  assumes "numeracao_ok df c" "2 < k"
    and "k \<le> int (length (filter (\<lambda>r. cliente r = c) (sort_values df)))"
  shows "length (janela_12 df coluna c k) = nat (min 12 (k - 1))"
proof -
  have "length (janela_12 df coluna c k)
          = length (tail_pd 12 (map coluna (take (nat (k - 1)) (filter (\<lambda>r. cliente r = c) (sort_values df)))))"
    unfolding janela_12_sorted [OF assms] numbered_filter_less [OF numero_cliente_sorted [OF assms(1)]] ..
  also have "\<dots> = nat (min 12 (k - 1))"
    using assms(2,3) by (simp add: tail_pd_def)
  finally show ?thesis .
qed

text \<open>
  Claim C1.  Let the invoices of customer \<open>c\<close> be numbered \<open>1, ..., N\<close>, and let \<open>r\<close> be
  the invoice of \<open>c\<close> with sequence number \<open>k > 2\<close>.  Then the output of the rolling mean
  stage holds for \<open>r\<close> exactly the mean, and the output of the rolling deviation stage
  exactly the sample standard deviation, of the source column at the invoices of \<open>c\<close>
  numbered \<open>max 1 (k - 12), ..., k - 1\<close>: invoice \<open>k\<close> is not in the window, invoices of
  other customers are not in the window, and the window holds \<open>min 12 (k - 1)\<close> values,
  never more than twelve.  For \<open>k = 15\<close> these are the invoices \<open>3, ..., 14\<close>.
\<close>

theorem rolling_window:
  assumes "numeracao_ok df c"
    and "r \<in> set df" and "cliente r = c" and "numero_fatura r = k" and "2 < k"
  shows "{m. (r, m) \<in> set (calcular_media_vl_fatura df coluna_valor)}
           = {mean_pd (janela_12 df coluna_valor c k)}
       \<and> {s. (r, s) \<in> set (calcular_sd_vl_fatura df coluna_valor)}
           = {std_pd (janela_12 df coluna_valor c k)}
       \<and> length (janela_12 df coluna_valor c k) = nat (min 12 (k - 1))"
proof -
  have r: "r \<in> set (sort_values df)" using assms(2) by (simp add: set_sort_values)
  have k: "k \<le> int (length (filter (\<lambda>x. cliente x = c) (sort_values df)))"
    using numero_le_length(2) [OF assms(1,2,3)] assms(4) by simp
  have n12: "\<not> (numero_fatura r = 1 \<or> numero_fatura r = 2)" using assms(4,5) by simp
  note w = janela_12_sorted [OF assms(1,5) k, of coluna_valor, symmetric]
  have "{m. (r, m) \<in> set (calcular_media_vl_fatura df coluna_valor)}
          = {mean_pd (janela_12 df coluna_valor c k)}"
    unfolding calcular_media_rows entries_of_rows using r n12 w assms(3,4) by simp
  moreover have "{s. (r, s) \<in> set (calcular_sd_vl_fatura df coluna_valor)}
          = {std_pd (janela_12 df coluna_valor c k)}"
    unfolding calcular_sd_rows entries_of_rows using r n12 w assms(3,4) by simp
  ultimately show ?thesis using length_janela_12 [OF assms(1,5) k] by simp
qed

theorem rolling_window_witness:
  "numeracao_ok df_quinze ''A''
   \<and> \<lparr>cliente = ''A'', vl_fatura = 15, numero_fatura = 15\<rparr> \<in> set df_quinze
   \<and> janela_12 df_quinze vl_fatura ''A'' 15 = [3, 4, 5, 6, 7, 8, 9, 10, 11, 12, 13, 14]
   \<and> {m. (\<lparr>cliente = ''A'', vl_fatura = 15, numero_fatura = 15\<rparr>, m)
            \<in> set (calcular_media_vl_fatura df_quinze vl_fatura)} = {Fin (17 / 2)}
   \<and> {s. (\<lparr>cliente = ''A'', vl_fatura = 15, numero_fatura = 15\<rparr>, s)
            \<in> set (calcular_sd_vl_fatura df_quinze vl_fatura)}
        = {std_pd [3, 4, 5, 6, 7, 8, 9, 10, 11, 12, 13, 14]}"
proof -
  let ?r = "\<lparr>cliente = ''A'', vl_fatura = 15, numero_fatura = 15\<rparr>"
  have ok: "numeracao_ok df_quinze ''A''" by code_simp
  have r: "?r \<in> set df_quinze" by code_simp
  have w: "janela_12 df_quinze vl_fatura ''A'' 15 = [3, 4, 5, 6, 7, 8, 9, 10, 11, 12, 13, 14]"
    by code_simp
  have m: "mean_pd [3, 4, 5, 6, 7, 8, 9, 10, 11, 12, 13, 14] = Fin (17 / 2)"
    by (simp add: mean_pd_def)
  from rolling_window [OF ok r, of 15 vl_fatura] ok r w m show ?thesis by simp
qed

text \<open>
  Claim C2.  Let the invoices of customer \<open>c\<close> be numbered \<open>1, ..., N\<close>, and let \<open>r\<close> be
  the invoice of \<open>c\<close> with sequence number 1 or 2.  Then the rolling mean of \<open>r\<close> is the
  value of the source column at invoice 1 of \<open>c\<close> (for invoice 2 neither its own value nor
  a mean of both), and the rolling standard deviation of \<open>r\<close> is 0.
\<close>

theorem first_two_invoices:
  assumes "numeracao_ok df c"
    and "r \<in> set df" and "cliente r = c" and "numero_fatura r = 1 \<or> numero_fatura r = 2"
  shows "(\<exists>v. valores_fatura df coluna_valor c 1 = [v]
            \<and> {m. (r, m) \<in> set (calcular_media_vl_fatura df coluna_valor)} = {Fin v})
       \<and> {s. (r, s) \<in> set (calcular_sd_vl_fatura df coluna_valor)} = {Fin 0}"
proof -
  let ?fc = "filter (\<lambda>x. cliente x = c) (sort_values df)"
  have r: "r \<in> set (sort_values df)" using assms(2) by (simp add: set_sort_values)
  then have "r \<in> set ?fc" using assms(3) by simp
  then have ne: "?fc \<noteq> []" by (auto simp: filter_empty_conv)
  then have len: "1 \<le> int (length ?fc)" by (cases ?fc) simp_all
  have v: "valores_fatura df coluna_valor c 1 = [coluna_valor (hd ?fc)]"
    using valores_fatura_sorted [OF assms(1) _ len, of coluna_valor] ne by (simp add: hd_conv_nth)
  have m: "{m. (r, m) \<in> set (calcular_media_vl_fatura df coluna_valor)} = {Fin (coluna_valor (hd ?fc))}"
    unfolding calcular_media_rows entries_of_rows using r assms(3,4) by auto
  have s: "{s. (r, s) \<in> set (calcular_sd_vl_fatura df coluna_valor)} = {Fin 0}"
    unfolding calcular_sd_rows entries_of_rows using r assms(4) by auto
  show ?thesis using v m s by blast
qed

theorem first_two_invoices_witness:
  "numeracao_ok df_quinze ''A''
   \<and> \<lparr>cliente = ''A'', vl_fatura = 2, numero_fatura = 2\<rparr> \<in> set df_quinze
   \<and> {m. (\<lparr>cliente = ''A'', vl_fatura = 2, numero_fatura = 2\<rparr>, m)
            \<in> set (calcular_media_vl_fatura df_quinze vl_fatura)} = {Fin 1}
   \<and> {s. (\<lparr>cliente = ''A'', vl_fatura = 2, numero_fatura = 2\<rparr>, s)
            \<in> set (calcular_sd_vl_fatura df_quinze vl_fatura)} = {Fin 0}"
proof -
  let ?r = "\<lparr>cliente = ''A'', vl_fatura = 2, numero_fatura = 2\<rparr>"
  have ok: "numeracao_ok df_quinze ''A''" by code_simp
  have r: "?r \<in> set df_quinze" by code_simp
  have v: "valores_fatura df_quinze vl_fatura ''A'' 1 = [1]" by code_simp
  from first_two_invoices [OF ok r, of vl_fatura] ok r v show ?thesis by simp
qed

section \<open>Z-score\<close>

text \<open>
  Claim C6.  The z-score column holds, for every row, the z-score of the specification
  computed from the three input columns of that row and from nothing else: where mean
  and deviation are finite it is \<open>(value - mean) / sd\<close> for a deviation that is not zero,
  and it is 0 for a deviation of 0, whatever the mean.
\<close>

theorem zscore_column:
  "calcular_zscore_faturas df coluna_valor coluna_media coluna_sd
     = map (\<lambda>r. (r, zscore_spec (coluna_valor r) (coluna_media r) (coluna_sd r))) df
   \<and> zscore_spec v (Fin m) (Fin s) = Fin (if s = 0 then 0 else (v - m) / s)
   \<and> zscore_spec v m' (Fin 0) = Fin 0"
proof -
  have "calcular_zscore_faturas df coluna_valor coluna_media coluna_sd
     = map (\<lambda>r. (r, zscore_spec (coluna_valor r) (coluna_media r) (coluna_sd r))) df"
    by (rule nth_equalityI) (simp_all add: calcular_zscore_faturas_def zscore_spec_def)
  then show ?thesis by (simp add: zscore_spec_def)
qed

section \<open>Payment timing\<close>

lemma random_randint_range:
  assumes "a \<le> b"
  shows "\<exists>d. random_randint a b u = Inr d \<and> a \<le> d \<and> d \<le> b"
proof -
  have "0 < nat (b - a + 1)" using assms by simp
  then have "u mod nat (b - a + 1) < nat (b - a + 1)" by (rule mod_less_divisor)
  then have "int (u mod nat (b - a + 1)) < b - a + 1" by linarith
  then show ?thesis using assms by (simp add: random_randint_def)
qed

lemma apply_calcular_dias_ok:
  assumes "a_min \<le> a_max" "e_min \<le> e_max"
  shows "\<exists>out. apply_calcular_dias a_min a_max e_min e_max u i xs = Inr out
           \<and> length out = length xs
           \<and> (\<forall>j<length xs. status_pago (out ! j) = status_pago (xs ! j)
                  \<and> pago_antes_vencimento (out ! j) = pago_antes_vencimento (xs ! j)
                  \<and> (\<not> pago_antes_vencimento (xs ! j) \<longrightarrow>
                        a_min \<le> dias_pagamento (out ! j) \<and> dias_pagamento (out ! j) \<le> a_max))"
proof (induction xs arbitrary: i)
  case Nil
  show ?case by simp
next
  case (Cons x xs)
  from Cons.IH [of "Suc i"] obtain rest where
    rest: "apply_calcular_dias a_min a_max e_min e_max u (Suc i) xs = Inr rest"
      "length rest = length xs"
      "\<forall>j<length xs. status_pago (rest ! j) = status_pago (xs ! j)
                  \<and> pago_antes_vencimento (rest ! j) = pago_antes_vencimento (xs ! j)
                  \<and> (\<not> pago_antes_vencimento (xs ! j) \<longrightarrow>
                        a_min \<le> dias_pagamento (rest ! j) \<and> dias_pagamento (rest ! j) \<le> a_max)"
    by blast
  obtain d where d: "calcular_dias a_min a_max e_min e_max x (u i) = Inr d"
    "\<not> pago_antes_vencimento x \<longrightarrow> a_min \<le> d \<and> d \<le> a_max"
    using random_randint_range [OF assms(1), of "u i"] random_randint_range [OF assms(2), of "u i"]
    by (cases "pago_antes_vencimento x") (auto simp: calcular_dias_def)
  let ?x' = "\<lparr>cliente = cliente x, vl_fatura = vl_fatura x,
              numero_fatura = numero_fatura x, status_pago = status_pago x,
              pago_antes_vencimento = pago_antes_vencimento x, dias_pagamento = d,
              \<dots> = fatura_vencimento.more x\<rparr>"
  have x': "status_pago ?x' = status_pago x" "pago_antes_vencimento ?x' = pago_antes_vencimento x"
    "dias_pagamento ?x' = d"
    by simp_all
  have out: "apply_calcular_dias a_min a_max e_min e_max u i (x # xs) = Inr (?x' # rest)"
    using d(1) rest(1) by simp
  show ?case
  proof (intro exI conjI allI impI)
    show "apply_calcular_dias a_min a_max e_min e_max u i (x # xs) = Inr (?x' # rest)" by (rule out)
    show "length (?x' # rest) = length (x # xs)" using rest(2) by simp
  next
    fix j assume "j < length (x # xs)"
    then show "status_pago ((?x' # rest) ! j) = status_pago ((x # xs) ! j)"
      "pago_antes_vencimento ((?x' # rest) ! j) = pago_antes_vencimento ((x # xs) ! j)"
      using rest(3) x' by (cases j; simp)+
  next
    fix j assume "j < length (x # xs)" "\<not> pago_antes_vencimento ((x # xs) ! j)"
    then show "a_min \<le> dias_pagamento ((?x' # rest) ! j)" "dias_pagamento ((?x' # rest) ! j) \<le> a_max"
      using rest(3) x' d(2) by (cases j; simp)+
  qed
qed

text \<open>
  Claim C8.  With well-formed ranges of days, the two stages of the Payment Timing
  Simulator return a table in which every invoice that is not paid is not paid before due
  and carries an offset of the late range
  \<open>dias_min_atraso \<le> dias_pagamento \<le> dias_max_atraso\<close>, whatever the random draws; the
  payment status itself is unchanged.
\<close>

theorem unpaid_is_late:
  assumes "dias_min_atraso \<le> dias_max_atraso" and "dias_min_antecipado \<le> dias_max_antecipado"
  shows "\<exists>out. calcular_dias_pagamento (marcar_pagamento_antes_vencimento df ch)
                  dias_min_atraso dias_max_atraso dias_min_antecipado dias_max_antecipado u = Inr out
           \<and> map status_pago out = map status_pago df
           \<and> (\<forall>x \<in> set out. \<not> status_pago x \<longrightarrow>
                  \<not> pago_antes_vencimento x
                  \<and> dias_min_atraso \<le> dias_pagamento x \<and> dias_pagamento x \<le> dias_max_atraso)"
proof -
  let ?df' = "marcar_pagamento_antes_vencimento df ch"
  have len: "length ?df' = length df" by (simp add: marcar_pagamento_antes_vencimento_def)
  have row: "status_pago (?df' ! j) = status_pago (df ! j)"
    "\<not> status_pago (df ! j) \<longrightarrow> \<not> pago_antes_vencimento (?df' ! j)" if "j < length df" for j
    using that by (simp_all add: marcar_pagamento_antes_vencimento_def)
  from apply_calcular_dias_ok [OF assms, of u 0 ?df'] obtain out where
    out: "calcular_dias_pagamento ?df' dias_min_atraso dias_max_atraso
            dias_min_antecipado dias_max_antecipado u = Inr out"
      "length out = length ?df'"
      "\<forall>j<length ?df'. status_pago (out ! j) = status_pago (?df' ! j)
                  \<and> pago_antes_vencimento (out ! j) = pago_antes_vencimento (?df' ! j)
                  \<and> (\<not> pago_antes_vencimento (?df' ! j) \<longrightarrow>
                        dias_min_atraso \<le> dias_pagamento (out ! j)
                        \<and> dias_pagamento (out ! j) \<le> dias_max_atraso)"
    unfolding calcular_dias_pagamento_def by blast
  have st: "map status_pago out = map status_pago df"
    by (rule nth_equalityI) (use out(2,3) len row(1) in simp_all)
  have late: "\<not> pago_antes_vencimento x
                  \<and> dias_min_atraso \<le> dias_pagamento x \<and> dias_pagamento x \<le> dias_max_atraso"
    if "x \<in> set out" "\<not> status_pago x" for x
  proof -
    from that(1) obtain j where j: "j < length out" "x = out ! j" by (auto simp: in_set_conv_nth)
    then have jl: "j < length df" "j < length ?df'" using out(2) len by simp_all
    have "\<not> status_pago (df ! j)" using that(2) j(2) out(3) jl row(1) by simp
    then have "\<not> pago_antes_vencimento (?df' ! j)" using row(2) jl by simp
    then show ?thesis using out(3) jl j(2) by simp
  qed
  from out(1) st late show ?thesis by blast
qed

theorem unpaid_is_late_witness:
  "(1::int) \<le> 100 \<and> (-5::int) \<le> 0
   \<and> calcular_dias_pagamento (marcar_pagamento_antes_vencimento df_pagas (\<lambda>i. 0)) 1 100 (-5) 0 (\<lambda>i. 7 + i)
       = Inr [\<lparr>cliente = ''A'', vl_fatura = 100, numero_fatura = 1, status_pago = True,
                pago_antes_vencimento = True, dias_pagamento = - 4\<rparr>,
              \<lparr>cliente = ''A'', vl_fatura = 100, numero_fatura = 2, status_pago = False,
                pago_antes_vencimento = False, dias_pagamento = 9\<rparr>]"
proof -
  have a: "(1::int) \<le> 100" and e: "(-5::int) \<le> 0" by simp_all
  have v: "calcular_dias_pagamento (marcar_pagamento_antes_vencimento df_pagas (\<lambda>i. 0)) 1 100 (-5) 0 (\<lambda>i. 7 + i)
       = Inr [\<lparr>cliente = ''A'', vl_fatura = 100, numero_fatura = 1, status_pago = True,
                pago_antes_vencimento = True, dias_pagamento = - 4\<rparr>,
              \<lparr>cliente = ''A'', vl_fatura = 100, numero_fatura = 2, status_pago = False,
                pago_antes_vencimento = False, dias_pagamento = 9\<rparr>]"
    by code_simp
  from unpaid_is_late [OF a e, of df_pagas "\<lambda>i. 0" "\<lambda>i. 7 + i"] a e v show ?thesis by simp
qed

section \<open>Open-invoice frequency\<close>

lemma sum_list_indicator:
  "sum_list (map (\<lambda>x. if P x then 1 else 0) xs) = int (length (filter P xs))"
  by (induction xs) simp_all

lemma length_filter_sort_values:
  "length (filter P (sort_values df)) = length (filter P df)"
  using mset_filter_sort_values [of P df] by (rule mset_eq_length)

lemma sum_list_filter_sort_values:
  fixes f :: "'a fatura_scheme \<Rightarrow> real"
  shows "sum_list (map f (filter P (sort_values df))) = sum_list (map f (filter P df))"
proof -
  have "mset (map f (filter P (sort_values df))) = mset (map f (filter P df))"
    using mset_filter_sort_values [of P df] by (metis mset_map)
  then show ?thesis by (metis sum_mset_sum_list)
qed

lemma calcular_frequencia_rows:
  "calcular_frequencia_faturas_aberto_12_meses df0 coluna_status =
     map (\<lambda>r. (r, sum_list (map (\<lambda>x. if \<not> coluna_status x then 1 else 0)
                    (filter (\<lambda>x. numero_fatura x \<le> numero_fatura r - 1
                                 \<and> numero_fatura x > max 1 (numero_fatura r - 1 - 12))
                       (filter (\<lambda>x. cliente x = cliente r) (sort_values df0))))))
       (sort_values df0)"
  unfolding calcular_frequencia_faturas_aberto_12_meses_def Let_def
  by (rule stage_rows) (simp_all add: map_nth_cliente_indices sort_values_def)

lemma frequencia_entries:
  assumes "r \<in> set df"
  shows "{f. (r, f) \<in> set (calcular_frequencia_faturas_aberto_12_meses df coluna_status)}
           = {int (length (filter (\<lambda>x. cliente x = cliente r
                                       \<and> numero_fatura x < numero_fatura r
                                       \<and> max 1 (numero_fatura r - 1 - 12) < numero_fatura x
                                       \<and> \<not> coluna_status x) df))}"
proof -
  have r: "r \<in> set (sort_values df)" using assms by (simp add: set_sort_values)
  have "(\<lambda>x. (cliente x = cliente r
              \<and> numero_fatura x \<le> numero_fatura r - 1
              \<and> max 1 (numero_fatura r - 1 - 12) < numero_fatura x) \<and> \<not> coluna_status x)
        = (\<lambda>x. cliente x = cliente r
              \<and> numero_fatura x < numero_fatura r
              \<and> max 1 (numero_fatura r - 1 - 12) < numero_fatura x
              \<and> \<not> coluna_status x)"
    by (intro ext) auto
  then show ?thesis
    unfolding calcular_frequencia_rows entries_of_rows
    using r by (simp add: sum_list_indicator length_filter_sort_values conj_commute conj_left_commute)
qed


text \<open>
  Claim C5.  For every invoice \<open>r\<close> of the table, with sequence number \<open>k\<close>, the
  frequency stage holds exactly the number of invoices of the same customer whose
  sequence number is strictly less than \<open>k\<close> and strictly greater than
  \<open>max 1 (k - 1 - 12)\<close> and whose status column is false; for \<open>k = 1\<close> this is 0.
\<close>

theorem open_invoice_frequency:
  assumes "r \<in> set df"
  shows "{f. (r, f) \<in> set (calcular_frequencia_faturas_aberto_12_meses df coluna_status)}
           = {int (length (filter (\<lambda>x. cliente x = cliente r
                                       \<and> numero_fatura x < numero_fatura r
                                       \<and> max 1 (numero_fatura r - 1 - 12) < numero_fatura x
                                       \<and> \<not> coluna_status x) df))}
       \<and> (numero_fatura r = 1 \<longrightarrow>
            {f. (r, f) \<in> set (calcular_frequencia_faturas_aberto_12_meses df coluna_status)} = {0})"
proof -
  have "filter (\<lambda>x. cliente x = cliente r \<and> numero_fatura x < numero_fatura r
                    \<and> max 1 (numero_fatura r - 1 - 12) < numero_fatura x
                    \<and> \<not> coluna_status x) df = []"
    if "numero_fatura r = 1"
    using that by (auto simp: filter_empty_conv)
  then show ?thesis using frequencia_entries [OF assms, of coluna_status] by simp
qed

theorem open_invoice_frequency_witness:
  "\<lparr>cliente = ''A'', vl_fatura = 50, numero_fatura = 4, status_pago = False,
      pago_antes_vencimento = False\<rparr> \<in> set df_aberto
   \<and> {f. (\<lparr>cliente = ''A'', vl_fatura = 50, numero_fatura = 4, status_pago = False,
             pago_antes_vencimento = False\<rparr>, f)
          \<in> set (calcular_frequencia_faturas_aberto_12_meses df_aberto pago_antes_vencimento)} = {2}
   \<and> \<lparr>cliente = ''B'', vl_fatura = 40, numero_fatura = 1, status_pago = False,
      pago_antes_vencimento = False\<rparr> \<in> set df_aberto
   \<and> {f. (\<lparr>cliente = ''B'', vl_fatura = 40, numero_fatura = 1, status_pago = False,
             pago_antes_vencimento = False\<rparr>, f)
          \<in> set (calcular_frequencia_faturas_aberto_12_meses df_aberto pago_antes_vencimento)} = {0}"
proof -
  let ?r = "\<lparr>cliente = ''A'', vl_fatura = 50, numero_fatura = 4, status_pago = False,
      pago_antes_vencimento = False\<rparr>"
  let ?b = "\<lparr>cliente = ''B'', vl_fatura = 40, numero_fatura = 1, status_pago = False,
      pago_antes_vencimento = False\<rparr>"
  have r: "?r \<in> set df_aberto" and b: "?b \<in> set df_aberto" by code_simp+
  have n: "int (length (filter (\<lambda>x. cliente x = cliente ?r
                                       \<and> numero_fatura x < numero_fatura ?r
                                       \<and> max 1 (numero_fatura ?r - 1 - 12) < numero_fatura x
                                       \<and> \<not> pago_antes_vencimento x) df_aberto)) = 2"
    by code_simp
  from open_invoice_frequency [OF r, of pago_antes_vencimento]
    open_invoice_frequency [OF b, of pago_antes_vencimento] r b n
  show ?thesis by simp
qed

text \<open>
  Claim C10.  For an invoice with sequence number \<open>2 \<le> k \<le> 13\<close> the lower bound
  \<open>max 1 (k - 13)\<close> is 1 and is exclusive: the count runs over the invoices of the customer
  numbered \<open>2, ..., k - 1\<close>, so invoice 1 is never counted, open or not.
\<close>

theorem first_invoice_never_counted:
  assumes "r \<in> set df" and "2 \<le> numero_fatura r" and "numero_fatura r \<le> 13"
  shows "{f. (r, f) \<in> set (calcular_frequencia_faturas_aberto_12_meses df coluna_status)}
           = {int (length (filter (\<lambda>x. cliente x = cliente r
                                       \<and> 1 < numero_fatura x \<and> numero_fatura x < numero_fatura r
                                       \<and> \<not> coluna_status x) df))}"
proof -
  have "max 1 (numero_fatura r - 1 - 12) = 1" using assms(3) by simp
  then have "(\<lambda>x. cliente x = cliente r
                                       \<and> numero_fatura x < numero_fatura r
                                       \<and> max 1 (numero_fatura r - 1 - 12) < numero_fatura x
                                       \<and> \<not> coluna_status x)
           = (\<lambda>x. cliente x = cliente r \<and> 1 < numero_fatura x \<and> numero_fatura x < numero_fatura r
                                       \<and> \<not> coluna_status x)"
    by (intro ext) auto
  then show ?thesis using frequencia_entries [OF assms(1), of coluna_status] by simp
qed

theorem first_invoice_never_counted_witness:
  "\<lparr>cliente = ''A'', vl_fatura = 30, numero_fatura = 2, status_pago = False,
      pago_antes_vencimento = False\<rparr> \<in> set df_aberto
   \<and> \<not> pago_antes_vencimento
         \<lparr>cliente = ''A'', vl_fatura = 20, numero_fatura = 1, status_pago = True,
          pago_antes_vencimento = False\<rparr>
   \<and> \<lparr>cliente = ''A'', vl_fatura = 20, numero_fatura = 1, status_pago = True,
          pago_antes_vencimento = False\<rparr> \<in> set df_aberto
   \<and> {f. (\<lparr>cliente = ''A'', vl_fatura = 30, numero_fatura = 2, status_pago = False,
             pago_antes_vencimento = False\<rparr>, f)
          \<in> set (calcular_frequencia_faturas_aberto_12_meses df_aberto pago_antes_vencimento)} = {0}"
proof -
  let ?r = "\<lparr>cliente = ''A'', vl_fatura = 30, numero_fatura = 2, status_pago = False,
      pago_antes_vencimento = False\<rparr>"
  have r: "?r \<in> set df_aberto" by code_simp
  have one: "\<lparr>cliente = ''A'', vl_fatura = 20, numero_fatura = 1, status_pago = True,
          pago_antes_vencimento = False\<rparr> \<in> set df_aberto" by code_simp
  have n: "int (length (filter (\<lambda>x. cliente x = cliente ?r
                                       \<and> 1 < numero_fatura x \<and> numero_fatura x < numero_fatura ?r
                                       \<and> \<not> pago_antes_vencimento x) df_aberto)) = 0"
    by code_simp
  from first_invoice_never_counted [OF r, of pago_antes_vencimento] r one n
  show ?thesis by simp
qed

section \<open>Total due\<close>

lemma calcular_total_devido_rows:
  "calcular_total_devido df0 coluna_status_pago coluna_pago_antes_vencimento coluna_valor =
     map (\<lambda>r. (r, sum_list (map coluna_valor
                    (if coluna_status_pago r
                     then filter (\<lambda>x. numero_fatura x \<ge> max 1 (numero_fatura r - 3)
                                      \<and> numero_fatura x < numero_fatura r
                                      \<and> coluna_pago_antes_vencimento x = False)
                            (filter (\<lambda>x. cliente x = cliente r) (sort_values df0))
                     else filter (\<lambda>x. numero_fatura x \<ge> max 1 (numero_fatura r - 12)
                                      \<and> numero_fatura x < numero_fatura r
                                      \<and> coluna_status_pago x = False)
                            (filter (\<lambda>x. cliente x = cliente r) (sort_values df0))))))
       (sort_values df0)"
  unfolding calcular_total_devido_def Let_def
  by (rule stage_rows) (simp_all add: map_nth_cliente_indices sort_values_def)

text \<open>
  Claim C3.  For every invoice \<open>r\<close> of the table, with sequence number \<open>k\<close>, the total
  due is: if \<open>r\<close> itself is paid, the sum of the amounts of the invoices of the same
  customer numbered \<open>max 1 (k - 3), ..., k - 1\<close> that were not paid before due; if \<open>r\<close> is
  not paid, the sum of the amounts of the invoices of the same customer numbered
  \<open>max 1 (k - 12), ..., k - 1\<close> that are not paid.  Invoice \<open>k\<close> is outside both ranges,
  and the sum over no invoice is 0.
\<close>

theorem total_due:
  assumes "r \<in> set df"
  shows "{t. (r, t) \<in> set (calcular_total_devido df coluna_status_pago
                              coluna_pago_antes_vencimento coluna_valor)}
           = {if coluna_status_pago r
              then sum_list (map coluna_valor
                     (filter (\<lambda>x. cliente x = cliente r
                                \<and> max 1 (numero_fatura r - 3) \<le> numero_fatura x
                                \<and> numero_fatura x \<le> numero_fatura r - 1
                                \<and> \<not> coluna_pago_antes_vencimento x) df))
              else sum_list (map coluna_valor
                     (filter (\<lambda>x. cliente x = cliente r
                                \<and> max 1 (numero_fatura r - 12) \<le> numero_fatura x
                                \<and> numero_fatura x \<le> numero_fatura r - 1
                                \<and> \<not> coluna_status_pago x) df))}"
proof -
  have r: "r \<in> set (sort_values df)" using assms by (simp add: set_sort_values)
  have p: "(\<lambda>x. (cliente x = cliente r \<and> lo \<le> numero_fatura x \<and> numero_fatura x < numero_fatura r)
                  \<and> \<not> st x)
           = (\<lambda>x. cliente x = cliente r \<and> lo \<le> numero_fatura x
                  \<and> numero_fatura x \<le> numero_fatura r - 1 \<and> \<not> st x)" for lo and st :: "'a fatura_scheme \<Rightarrow> bool"
    by (intro ext) auto
  show ?thesis
    unfolding calcular_total_devido_rows entries_of_rows
    using r by (simp add: sum_list_filter_sort_values conj_commute conj_left_commute p)
qed

theorem total_due_witness:
  "\<lparr>cliente = ''A'', vl_fatura = 10, numero_fatura = 3, status_pago = True,
      pago_antes_vencimento = False\<rparr> \<in> set df_aberto
   \<and> {t. (\<lparr>cliente = ''A'', vl_fatura = 10, numero_fatura = 3, status_pago = True,
             pago_antes_vencimento = False\<rparr>, t)
          \<in> set (calcular_total_devido df_aberto status_pago pago_antes_vencimento vl_fatura)} = {50}
   \<and> \<lparr>cliente = ''A'', vl_fatura = 50, numero_fatura = 4, status_pago = False,
      pago_antes_vencimento = False\<rparr> \<in> set df_aberto
   \<and> {t. (\<lparr>cliente = ''A'', vl_fatura = 50, numero_fatura = 4, status_pago = False,
             pago_antes_vencimento = False\<rparr>, t)
          \<in> set (calcular_total_devido df_aberto status_pago pago_antes_vencimento vl_fatura)} = {30}
   \<and> \<lparr>cliente = ''B'', vl_fatura = 40, numero_fatura = 1, status_pago = False,
      pago_antes_vencimento = False\<rparr> \<in> set df_aberto
   \<and> {t. (\<lparr>cliente = ''B'', vl_fatura = 40, numero_fatura = 1, status_pago = False,
             pago_antes_vencimento = False\<rparr>, t)
          \<in> set (calcular_total_devido df_aberto status_pago pago_antes_vencimento vl_fatura)} = {0}"
proof -
  let ?p = "\<lparr>cliente = ''A'', vl_fatura = 10, numero_fatura = 3, status_pago = True,
      pago_antes_vencimento = False\<rparr>"
  let ?u = "\<lparr>cliente = ''A'', vl_fatura = 50, numero_fatura = 4, status_pago = False,
      pago_antes_vencimento = False\<rparr>"
  let ?b = "\<lparr>cliente = ''B'', vl_fatura = 40, numero_fatura = 1, status_pago = False,
      pago_antes_vencimento = False\<rparr>"
  have p: "?p \<in> set df_aberto" and u: "?u \<in> set df_aberto" and b: "?b \<in> set df_aberto"
    by code_simp+
  have sp: "sum_list (map vl_fatura
                     (filter (\<lambda>x. cliente x = cliente ?p
                                \<and> max 1 (numero_fatura ?p - 3) \<le> numero_fatura x
                                \<and> numero_fatura x \<le> numero_fatura ?p - 1
                                \<and> \<not> pago_antes_vencimento x) df_aberto)) = 50"
    by code_simp
  have su: "sum_list (map vl_fatura
                     (filter (\<lambda>x. cliente x = cliente ?u
                                \<and> max 1 (numero_fatura ?u - 12) \<le> numero_fatura x
                                \<and> numero_fatura x \<le> numero_fatura ?u - 1
                                \<and> \<not> status_pago x) df_aberto)) = 30"
    by code_simp
  have sb: "sum_list (map vl_fatura
                     (filter (\<lambda>x. cliente x = cliente ?b
                                \<and> max 1 (numero_fatura ?b - 12) \<le> numero_fatura x
                                \<and> numero_fatura x \<le> numero_fatura ?b - 1
                                \<and> \<not> status_pago x) df_aberto)) = 0"
    by code_simp
  from total_due [OF p, of status_pago pago_antes_vencimento vl_fatura]
    total_due [OF u, of status_pago pago_antes_vencimento vl_fatura]
    total_due [OF b, of status_pago pago_antes_vencimento vl_fatura]
    p u b sp su sb
  show ?thesis by simp
qed


section \<open>Payment status\<close>

lemma random_choice_range: "random_choice (range_py (m - 1) m) u = m - 1"
  by (simp add: random_choice_def range_py_def)

lemma numeros_map_status:
  assumes "\<And>r. cliente (h r) = cliente r" "\<And>r. numero_fatura (h r) = numero_fatura r"
  shows "map numero_fatura (filter (\<lambda>r. cliente r = c) (map h df))
           = map numero_fatura (filter (\<lambda>r. cliente r = c) df)"
  by (simp add: filter_map o_def assms)

lemma marcar_loop_map:
  "marcar_loop ch j cs df =
     map (\<lambda>r. if cliente r \<in> set cs \<and> 2 < max_numero df (cliente r)
                  \<and> numero_fatura r = max_numero df (cliente r) - 1
               then r\<lparr>status_pago := False\<rparr> else r) df"
proof (induction cs arbitrary: j df)
  case Nil
  show ?case by (simp add: map_idI)
next
  case (Cons c cs)
  let ?h = "\<lambda>r. if cliente r = c \<and> numero_fatura r = max_numero df c - 1
                 then r\<lparr>status_pago := False\<rparr> else r"
  let ?df' = "if 2 < max_numero df c then map ?h df else df"
  have step: "marcar_loop ch j (c # cs) df = marcar_loop ch (Suc j) cs ?df'"
    by (simp add: Let_def random_choice_range)
  have nm: "map numero_fatura (filter (\<lambda>r. cliente r = c') (map ?h df))
              = map numero_fatura (filter (\<lambda>r. cliente r = c') df)" for c'
    by (rule numeros_map_status) simp_all
  have same: "max_numero ?df' c' = max_numero df c'" for c'
  proof (cases "2 < max_numero df c")
    case True
    then show ?thesis by (simp only: if_True nm)
  next
    case False
    then show ?thesis by (simp only: if_False)
  qed
  show ?case
    unfolding step Cons.IH same
  proof (cases "2 < max_numero df c")
    case True
    then show "map (\<lambda>r. if cliente r \<in> set cs \<and> 2 < max_numero df (cliente r)
                  \<and> numero_fatura r = max_numero df (cliente r) - 1
               then r\<lparr>status_pago := False\<rparr> else r) ?df'
             = map (\<lambda>r. if cliente r \<in> set (c # cs) \<and> 2 < max_numero df (cliente r)
                  \<and> numero_fatura r = max_numero df (cliente r) - 1
               then r\<lparr>status_pago := False\<rparr> else r) df"
      by (simp only: if_True map_map) (rule map_cong, rule refl, auto simp del: set_map set_filter)
  next
    case False
    then show "map (\<lambda>r. if cliente r \<in> set cs \<and> 2 < max_numero df (cliente r)
                  \<and> numero_fatura r = max_numero df (cliente r) - 1
               then r\<lparr>status_pago := False\<rparr> else r) ?df'
             = map (\<lambda>r. if cliente r \<in> set (c # cs) \<and> 2 < max_numero df (cliente r)
                  \<and> numero_fatura r = max_numero df (cliente r) - 1
               then r\<lparr>status_pago := False\<rparr> else r) df"
      by (simp only: if_False) (rule map_cong, rule refl, auto simp del: set_map set_filter)
  qed
qed


lemma numeros_cliente_indices:
  "map (\<lambda>i. numero_fatura (df ! i)) (cliente_indices df c)
     = map numero_fatura (filter (\<lambda>r. cliente r = c) df)"
  using arg_cong [OF map_nth_cliente_indices [of df c], of "map numero_fatura"]
  by (simp add: o_def)

lemma idxmax_props:
  assumes "c \<in> set (map cliente df)"
  shows "idxmax_numero_fatura df c \<in> set (cliente_indices df c)"
    and "numero_fatura (df ! idxmax_numero_fatura df c) = max_numero df c"
proof -
  let ?idxs = "cliente_indices df c"
  let ?m = "Max (set (map (\<lambda>i. numero_fatura (df ! i)) ?idxs))"
  from assms obtain i where "i < length df" "cliente (df ! i) = c"
    by (auto simp: in_set_conv_nth)
  then have "i \<in> set ?idxs" by (simp add: set_cliente_indices)
  then have ne: "set (map (\<lambda>i. numero_fatura (df ! i)) ?idxs) \<noteq> {}" by auto
  have "?m \<in> set (map (\<lambda>i. numero_fatura (df ! i)) ?idxs)"
    by (rule Max_in) (simp_all only: ne List.finite_set not_False_eq_True)
  then obtain i0 where "i0 \<in> set ?idxs" "numero_fatura (df ! i0) = ?m" by auto
  then have "filter (\<lambda>i. numero_fatura (df ! i) = ?m) ?idxs \<noteq> []"
    by (auto simp: filter_empty_conv)
  then have "hd (filter (\<lambda>i. numero_fatura (df ! i) = ?m) ?idxs)
               \<in> set (filter (\<lambda>i. numero_fatura (df ! i) = ?m) ?idxs)"
    by (rule hd_in_set)
  then have h: "idxmax_numero_fatura df c \<in> set (filter (\<lambda>i. numero_fatura (df ! i) = ?m) ?idxs)"
    by (simp only: idxmax_numero_fatura_def Let_def)
  from h show "idxmax_numero_fatura df c \<in> set ?idxs" by simp
  from h have "numero_fatura (df ! idxmax_numero_fatura df c) = ?m" by simp
  then show "numero_fatura (df ! idxmax_numero_fatura df c) = max_numero df c"
    by (simp only: numeros_cliente_indices)
qed

lemma distinct_cliente_indices: "distinct (cliente_indices df c)"
  by (simp add: cliente_indices_def)

lemma numeracao_distinct:
  assumes "numeracao_ok df c"
  shows "distinct (map numero_fatura (filter (\<lambda>r. cliente r = c) df))"
proof -
  have "distinct (sort (map numero_fatura (filter (\<lambda>r. cliente r = c) df)))"
    using assms by (simp add: numeracao_ok_def Let_def)
  then show ?thesis by (simp only: distinct_sort)
qed

lemma Max_interval: "(a :: int) \<le> b \<Longrightarrow> Max {a..b} = b"
  by (rule Max_eqI) simp_all

lemma numeracao_max:
  assumes "numeracao_ok df c" "filter (\<lambda>r. cliente r = c) df \<noteq> []"
  shows "max_numero df c = int (length (filter (\<lambda>r. cliente r = c) df))"
proof -
  let ?ns = "map numero_fatura (filter (\<lambda>r. cliente r = c) df)"
  have "set ?ns = set (sort ?ns)" by simp
  also have "\<dots> = {1..int (length ?ns)}"
    using assms(1) by (simp add: numeracao_ok_def Let_def)
  finally have "set ?ns = {1..int (length (filter (\<lambda>r. cliente r = c) df))}" by simp
  moreover have "1 \<le> int (length (filter (\<lambda>r. cliente r = c) df))"
    using assms(2) by (cases "filter (\<lambda>r. cliente r = c) df") simp_all
  ultimately show ?thesis by (simp only: Max_interval)
qed

lemma recentes_iff:
  assumes "numeracao_ok df c" "i < length df" "cliente (df ! i) = c"
  shows "i \<in> set (map (idxmax_numero_fatura df) (unique (map cliente df)))
           \<longleftrightarrow> numero_fatura (df ! i) = max_numero df c"
proof
  assume "i \<in> set (map (idxmax_numero_fatura df) (unique (map cliente df)))"
  then obtain c' where c': "c' \<in> set (map cliente df)" "i = idxmax_numero_fatura df c'"
    by (auto simp: set_unique)
  from idxmax_props(1) [OF c'(1)] c'(2) have "cliente (df ! i) = c'"
    by (simp add: set_cliente_indices)
  then have "c' = c" using assms(3) by simp
  then show "numero_fatura (df ! i) = max_numero df c"
    using idxmax_props(2) [OF c'(1)] c'(2) by simp
next
  assume k: "numero_fatura (df ! i) = max_numero df c"
  have c: "c \<in> set (map cliente df)" using assms(2,3) nth_mem [of i "map cliente df"] by simp
  let ?i0 = "idxmax_numero_fatura df c"
  have i: "i \<in> set (cliente_indices df c)" using assms(2,3) by (simp add: set_cliente_indices)
  have "distinct (map (\<lambda>i. numero_fatura (df ! i)) (cliente_indices df c))"
    using numeracao_distinct [OF assms(1)] by (simp only: numeros_cliente_indices)
  then have inj: "inj_on (\<lambda>i. numero_fatura (df ! i)) (set (cliente_indices df c))"
    by (simp add: distinct_map)
  have "numero_fatura (df ! i) = numero_fatura (df ! ?i0)"
    using idxmax_props(2) [OF c] k by simp
  then have "i = ?i0"
    by (rule inj_onD [OF inj _ i idxmax_props(1) [OF c]])
  then show "i \<in> set (map (idxmax_numero_fatura df) (unique (map cliente df)))"
    using c by (simp add: set_unique del: set_map) (metis imageI set_map set_unique)
qed

text \<open>
  Claim C4.  Let the invoices of customer \<open>c\<close> be numbered \<open>1, ..., N\<close>.  In the table
  returned by the Payment Status Assignor, whatever the random draws, an invoice of \<open>c\<close>
  is unpaid exactly if its sequence number is \<open>N\<close>, or if \<open>N > 2\<close> and its sequence number
  is \<open>N - 1\<close>; every other invoice of \<open>c\<close> is paid.  The stage keeps the rows of the
  table and their order.
\<close>

theorem payment_status:
  assumes "numeracao_ok df c"
    and "x \<in> set (marcar_faturas_pagas df ch)" and "cliente x = c"
  shows "(status_pago x \<longleftrightarrow>
           \<not> (numero_fatura x = int (length (filter (\<lambda>r. cliente r = c) df))
              \<or> (2 < int (length (filter (\<lambda>r. cliente r = c) df))
                  \<and> numero_fatura x = int (length (filter (\<lambda>r. cliente r = c) df)) - 1)))
       \<and> map fatura.truncate (marcar_faturas_pagas df ch) = df"
proof -
  define df1 where "df1 = map (\<lambda>r. \<lparr>cliente = cliente r, vl_fatura = vl_fatura r,
                           numero_fatura = numero_fatura r, status_pago = True,
                           \<dots> = fatura.more r\<rparr>) df"
  define recentes where "recentes = map (idxmax_numero_fatura df1) (unique (map cliente df1))"
  define df2 where "df2 = map (\<lambda>i. if i \<in> set recentes then (df1 ! i)\<lparr>status_pago := False\<rparr> else df1 ! i)
                  [0..<length df1]"
  let ?N = "int (length (filter (\<lambda>r. cliente r = c) df))"
  have out: "marcar_faturas_pagas df ch =
     map (\<lambda>r. if cliente r \<in> set (unique (map cliente df2)) \<and> 2 < max_numero df2 (cliente r)
                  \<and> numero_fatura r = max_numero df2 (cliente r) - 1
               then r\<lparr>status_pago := False\<rparr> else r) df2"
    by (simp only: marcar_faturas_pagas_def Let_def marcar_loop_map df1_def recentes_def df2_def)
  have len: "length df1 = length df" "length df2 = length df" by (simp_all add: df1_def df2_def)
  have row1: "cliente (df1 ! i) = cliente (df ! i)" "numero_fatura (df1 ! i) = numero_fatura (df ! i)"
    "status_pago (df1 ! i)" if "i < length df" for i
    using that by (simp_all add: df1_def)
  have row2: "cliente (df2 ! i) = cliente (df ! i)" "numero_fatura (df2 ! i) = numero_fatura (df ! i)"
    "status_pago (df2 ! i) \<longleftrightarrow> i \<notin> set recentes" if "i < length df" for i
    using that row1 [OF that] len by (simp_all add: df2_def)
  have nums1: "map numero_fatura (filter (\<lambda>r. cliente r = c') df1)
                = map numero_fatura (filter (\<lambda>r. cliente r = c') df)" for c'
    by (simp add: df1_def filter_map o_def)
  have nums2: "map numero_fatura (filter (\<lambda>r. cliente r = c') df2)
                = map numero_fatura (filter (\<lambda>r. cliente r = c') df)" for c'
  proof -
    have "map (\<lambda>r. (cliente r, numero_fatura r)) df2 = map (\<lambda>r. (cliente r, numero_fatura r)) df"
      by (rule nth_equalityI) (use len row2 in simp_all)
    then have "map snd (filter (\<lambda>p. fst p = c') (map (\<lambda>r. (cliente r, numero_fatura r)) df2))
                 = map snd (filter (\<lambda>p. fst p = c') (map (\<lambda>r. (cliente r, numero_fatura r)) df))"
      by simp
    then show ?thesis by (simp add: filter_map o_def)
  qed
  have ok1: "numeracao_ok df1 c" using assms(1) by (simp add: numeracao_ok_def nums1)
  from assms(2) obtain i where i: "i < length df" and x:
    "x = (if cliente (df2 ! i) \<in> set (unique (map cliente df2)) \<and> 2 < max_numero df2 (cliente (df2 ! i))
                  \<and> numero_fatura (df2 ! i) = max_numero df2 (cliente (df2 ! i)) - 1
               then (df2 ! i)\<lparr>status_pago := False\<rparr> else df2 ! i)"
    unfolding out using len by (auto simp: in_set_conv_nth simp del: set_map set_filter)
  have cx: "cliente x = cliente (df ! i)" and nx: "numero_fatura x = numero_fatura (df ! i)"
    using x row2 [OF i] by (simp_all split: if_splits)
  have ci: "cliente (df ! i) = c" using cx assms(3) by simp
  have "df ! i \<in> set (filter (\<lambda>r. cliente r = c) df)" using i ci by simp
  then have ne: "filter (\<lambda>r. cliente r = c) df \<noteq> []" by (metis empty_iff list.set(1))
  have maxc: "max_numero df c = ?N" by (rule numeracao_max [OF assms(1) ne])
  have max2: "max_numero df2 c = ?N" using maxc by (simp only: nums2)
  have max1: "max_numero df1 c = ?N" using maxc by (simp only: nums1)
  have "cliente (df2 ! i) \<in> set (map cliente df2)"
    using i len nth_mem [of i "map cliente df2"] by simp
  then have mem: "cliente (df2 ! i) \<in> set (unique (map cliente df2))" by (simp only: set_unique)
  have rec: "i \<in> set recentes \<longleftrightarrow> numero_fatura (df ! i) = ?N"
    using recentes_iff [OF ok1, of i] i len row1 [OF i] ci max1
    by (simp add: recentes_def del: set_map)
  have "status_pago x \<longleftrightarrow> status_pago (df2 ! i)
          \<and> \<not> (2 < ?N \<and> numero_fatura (df ! i) = ?N - 1)"
    using x mem row2(1,2) [OF i] ci max2 by (simp del: set_map set_filter)
  then have st: "status_pago x \<longleftrightarrow>
           \<not> (numero_fatura x = ?N \<or> (2 < ?N \<and> numero_fatura x = ?N - 1))"
    using row2(3) [OF i] rec nx by auto
  have t1: "fatura.truncate (df1 ! j) = df ! j" if "j < length df" for j
    using that by (simp add: df1_def fatura.defs)
  have t2: "fatura.truncate (df2 ! j) = df ! j" if "j < length df" for j
    using that t1 [OF that] len by (simp add: df2_def fatura.defs)
  have t3: "fatura.truncate (if P then r\<lparr>status_pago := False\<rparr> else r) = fatura.truncate r"
    for P and r :: fatura_paga
    by (simp add: fatura.defs)
  have "map fatura.truncate df2 = df"
    by (rule nth_equalityI) (use len t2 in simp_all)
  then have "map fatura.truncate (marcar_faturas_pagas df ch) = df"
    unfolding out by (simp only: map_map o_def t3)
  with st show ?thesis by simp
qed

theorem payment_status_witness:
  "numeracao_ok df_tres ''A''
   \<and> \<lparr>cliente = ''A'', vl_fatura = 10, numero_fatura = 3, status_pago = False\<rparr>
        \<in> set (marcar_faturas_pagas df_tres (\<lambda>j. 5))
   \<and> int (length (filter (\<lambda>r. cliente r = ''A'') df_tres)) = 4
   \<and> map fatura.truncate (marcar_faturas_pagas df_tres (\<lambda>j. 5)) = df_tres"
proof -
  let ?x = "\<lparr>cliente = ''A'', vl_fatura = 10, numero_fatura = 3, status_pago = False\<rparr>"
  have ok: "numeracao_ok df_tres ''A''" by code_simp
  have x: "?x \<in> set (marcar_faturas_pagas df_tres (\<lambda>j. 5))" by code_simp
  have n: "int (length (filter (\<lambda>r. cliente r = ''A'') df_tres)) = 4" by code_simp
  from payment_status [OF ok x] ok x n show ?thesis by simp
qed


section \<open>Configuration errors of the pipeline\<close>
















end
